theory Spec2Isabelle
  imports Complex_Main "HOL-Library.Multiset" "HOL-Library.Sublist"
begin

section \<open>Conventions of the embedding\<close>

text \<open>
  The development embeds the Fleaflicker adapter (\<^verbatim>\<open>FleaflickerPlatform.map_data_to_base\<close>
  in \<^verbatim>\<open>src/ffmwr/dao/platforms/fleaflicker.py\<close>) and the report data builder
  (\<^verbatim>\<open>ReportData.__init__\<close> in \<^verbatim>\<open>src/ffmwr/report/data.py\<close>).

  \<^item> Python \<^verbatim>\<open>int\<close> is \<open>int\<close>. Python \<^verbatim>\<open>float\<close> is idealised as \<open>rat\<close>: sums, differences
    and comparisons are exact, so the binary rounding of IEEE doubles is outside the model.
  \<^item> Week keys of the per-week dictionaries are \<^verbatim>\<open>str(wk)\<close> of an integer week in the source;
    \<^verbatim>\<open>str\<close> is injective on integers, so the model keys those dictionaries by the integer.
  \<^item> Team and player ids are the strings the source obtains with \<^verbatim>\<open>str(...)\<close>.
  \<^item> A dictionary whose iteration order matters is an association list; otherwise a map.
\<close>

section \<open>Week windows and the epoch lookup\<close>

text \<open>
  \<^verbatim>\<open>week_start_ts: Dict[int, int]\<close> maps a week number to the epoch millisecond at which the
  week starts. It is an association list with one pair per key. The source iterates
  \<^verbatim>\<open>sorted(week_start_ts.keys())\<close> and reads \<^verbatim>\<open>week_start_ts[w]\<close> for each key, which is the
  list of items sorted by week number.
\<close>

type_synonym week_start_ts = "(int \<times> int) list"

definition sorted_weeks :: "week_start_ts \<Rightarrow> (int \<times> int) list" where
  "sorted_weeks wst = sort_key fst wst"

definition eight_days_ms :: int where
  "eight_days_ms = 8 * 24 * 60 * 60 * 1000"

text \<open>
  The loop of \<^verbatim>\<open>_map_epoch\<close> (fleaflicker.py 314-323), on the remaining sorted weeks:
  \<^verbatim>\<open>
  for i, w in enumerate(sorted_weeks):
      start = week_start_ts[w]
      if i + 1 < len(sorted_weeks):
          end = week_start_ts[sorted_weeks[i + 1]] - 1
      else:
          end = start + (8 * 24 * 60 * 60 * 1000)
      if start <= ts_ms <= end:
          return w
  return None
  \<close>
\<close>

fun map_epoch_loop :: "(int \<times> int) list \<Rightarrow> int \<Rightarrow> int option" where
  "map_epoch_loop [] ts_ms = None"
| "map_epoch_loop ((w, start) # later) ts_ms =
     (let end = (case later of
                   [] \<Rightarrow> start + eight_days_ms
                 | (w', start') # _ \<Rightarrow> start' - 1)
      in if start \<le> ts_ms \<and> ts_ms \<le> end then Some w else map_epoch_loop later ts_ms)"

definition map_epoch :: "week_start_ts \<Rightarrow> int \<Rightarrow> int option" where
  "map_epoch wst ts_ms = map_epoch_loop (sorted_weeks wst) ts_ms"

text \<open>
  The copy of \<^verbatim>\<open>_map_epoch\<close> in the trade normalisation (fleaflicker.py 426-435) starts with
  \<^verbatim>\<open>if not ts_ms: return None\<close>.
\<close>

definition map_epoch_trade :: "week_start_ts \<Rightarrow> int \<Rightarrow> int option" where
  "map_epoch_trade wst ts_ms = (if ts_ms = 0 then None else map_epoch wst ts_ms)"

text \<open>
  The week windows in the words of the specification: the window of a known week runs from
  its start to one millisecond before the start of the next known week; the window of the
  last known week runs to its start plus eight days.
\<close>

fun week_windows :: "(int \<times> int) list \<Rightarrow> (int \<times> int \<times> int) list" where
  "week_windows [] = []"
| "week_windows [(w, start)] = [(w, start, start + eight_days_ms)]"
| "week_windows ((w, start) # (w', start') # later) =
     (w, start, start' - 1) # week_windows ((w', start') # later)"

definition first_window_containing :: "(int \<times> int \<times> int) list \<Rightarrow> int \<Rightarrow> int option" where
  "first_window_containing wins ts_ms =
     map_option fst (find (\<lambda>(w, start, end). start \<le> ts_ms \<and> ts_ms \<le> end) wins)"

section \<open>Python values and payload fields\<close>

datatype py_error = AttributeError | TypeError | ValueError | KeyError | NetworkError





text \<open>
  A key of a JSON object under which the source expects an object: the key is absent, or
  holds a falsy value that is no object (\<^verbatim>\<open>None\<close>, \<^verbatim>\<open>0\<close>, \<^verbatim>\<open>""\<close>), or a truthy value that is no
  object, or an object.
\<close>

datatype 'a jfield = Absent | Falsy | Truthy | Dict 'a

text \<open>
  A loop over a list that stops at the first exception: \<open>fold_err\<close> when the exception leaves
  the function, \<open>fold_exc\<close> when a handler further out catches it and the state reached so far
  stays (a step returns its state and the exception it raised, if any).
\<close>

fun fold_exc :: "('a \<Rightarrow> 's \<Rightarrow> 's \<times> 'e option) \<Rightarrow> 'a list \<Rightarrow> 's \<Rightarrow> 's \<times> 'e option" where
  "fold_exc f [] s = (s, None)"
| "fold_exc f (x # xs) s =
     (case f x s of (s', None) \<Rightarrow> fold_exc f xs s' | (s', Some e) \<Rightarrow> (s', Some e))"

fun fold_err :: "('a \<Rightarrow> 's \<Rightarrow> 'e + 's) \<Rightarrow> 'a list \<Rightarrow> 's \<Rightarrow> 'e + 's" where
  "fold_err f [] s = Inr s"
| "fold_err f (x # xs) s = (case f x s of Inl e \<Rightarrow> Inl e | Inr s' \<Rightarrow> fold_err f xs s')"

section \<open>Scoreboard payload and weekly medians\<close>









definition round_half_even :: "rat \<Rightarrow> int" where
  "round_half_even x =
     (let f = \<lfloor>x\<rfloor>; d = x - of_int f
      in if d < 1 / 2 then f else if 1 / 2 < d then f + 1 else if even f then f else f + 1)"

definition round2 :: "rat \<Rightarrow> rat" where
  "round2 x = of_int (round_half_even (x * 100)) / 100"







section \<open>Cumulative median records\<close>

text \<open>
  Modelled from the spec: the class \<^verbatim>\<open>BaseRecord\<close> of \<^verbatim>\<open>ffmwr.models.base.model\<close> is not
  under src/. The specification describes a record of wins, losses, ties, points-for and
  points-against into which a week is folded by explicit add-operations; a record made by
  \<^verbatim>\<open>BaseRecord(team_id=..., team_name=...)\<close> starts with every count and total at zero.
\<close>

record BaseRecord =
  rec_team_id :: string
  wins :: nat
  losses :: nat
  ties :: nat
  points_for :: rat
  points_against :: rat

















section \<open>Transaction feeds and weekly buckets\<close>

text \<open>
  An item of the league activity feed and of a team's transaction feed:
  \<^verbatim>\<open>{"timeEpochMilli": t, "transaction": {"type": ty, "team": {"id": i},
     "player": {"proPlayer": {"id": p}, "requestedGames": [{"period": {"ordinal": n}}]},
     "players": [{"proPlayer": {"id": q}}]}}\<close>.
  \<open>pb_id\<close> is \<^verbatim>\<open>str\<close> of the player's id when there is one; \<open>pb_ordinal\<close> is
  \<^verbatim>\<open>int(req_games[0].get("period", {}).get("ordinal"))\<close> when \<^verbatim>\<open>requestedGames\<close> is not empty and
  the conversion does not raise; \<open>tx_first_player\<close> is
  \<^verbatim>\<open>str((tx.get("players")[0].get("proPlayer") or {}).get("id"))\<close> when \<^verbatim>\<open>players\<close> is not empty and
  the expression does not raise. A transaction that is present is an object.
\<close>

record player_block =
  pb_id :: "string option"
  pb_ordinal :: "int option"

record transaction =
  tx_type :: "string option"
  tx_team_id :: string
  tx_player :: "player_block option"
  tx_first_player :: "string option"

record item =
  timeEpochMilli :: int
  it_transaction :: "transaction option"

text \<open>
  The normalised events. \<^verbatim>\<open>{"team_id": .., "player_id": ..}\<close> is a \<open>move\<close>; the dictionary
  appended for a completed trade is a \<open>trade_row\<close>. The list \<^verbatim>\<open>"trades"\<close> of a bucket also
  receives raw activity items (fleaflicker.py 368) and moves of the offline cache whose kind
  is \<^verbatim>\<open>"trades"\<close> (fleaflicker.py 504).
\<close>

record move =
  mv_team_id :: string
  mv_player_id :: "string option"

record trade_row =
  row_team_id :: string
  players_received :: "string list"
  players_sent :: "string list"
  row_trade_ts :: "int option"
  row_trade_id :: "int option"

datatype trade_event = RawActivity item | TradeRow trade_row | TradeMove move

text \<open>\<^verbatim>\<open>{"adds": [], "claims": [], "drops": [], "trades": []}\<close>\<close>

record bucket =
  adds :: "move list"
  claims :: "move list"
  drops :: "move list"
  trades :: "trade_event list"

definition empty_bucket :: bucket where
  "empty_bucket = \<lparr>adds = [], claims = [], drops = [], trades = []\<rparr>"

type_synonym transactions_by_week = "int \<rightharpoonup> bucket"

text \<open>
  What the normalisation reads of the adapter and the league. \<open>in_season t\<close> is the test
  \<^verbatim>\<open>season_start < timestamp < season_end\<close> of fleaflicker.py 277 on the local time of the epoch
  \<open>t\<close>; the calendar is outside the model.
\<close>

record env =
  start_week :: int
  week_for_report :: int
  num_regular_season_weeks :: int
  week_start_ts :: week_start_ts
  in_season :: "int \<Rightarrow> bool"
  offline :: bool

text \<open>fleaflicker.py 266-267\<close>

definition init_buckets :: "env \<Rightarrow> transactions_by_week \<Rightarrow> transactions_by_week" where
  "init_buckets e tbw =
     fold (\<lambda>wk m. m(wk \<mapsto> empty_bucket)) [start_week e .. num_regular_season_weeks e] tbw"

text \<open>\<^verbatim>\<open>tx.get("type") or "TRANSACTION_ADD"\<close>, and \<^verbatim>\<open>"DROP" in transaction_type\<close>.\<close>

definition type_or_default :: "string option \<Rightarrow> string" where
  "type_or_default t =
     (case t of None \<Rightarrow> ''TRANSACTION_ADD'' | Some ty \<Rightarrow> if ty = [] then ''TRANSACTION_ADD'' else ty)"

definition contains :: "string \<Rightarrow> string \<Rightarrow> bool" where
  "contains ty sub = sublist sub ty"

text \<open>\<^verbatim>\<open>if not week_ord\<close>: a week is falsy when it is \<^verbatim>\<open>None\<close> or \<^verbatim>\<open>0\<close>.\<close>

definition truthy_int :: "int option \<Rightarrow> bool" where
  "truthy_int v = (case v of None \<Rightarrow> False | Some n \<Rightarrow> n \<noteq> 0)"

text \<open>
  fleaflicker.py 308-341, the week of an activity item:
  \<^verbatim>\<open>
  if week_start_ts:
      mapped = _map_epoch(ems)
      if week_ord is None:
          week_ord = mapped
      else:
          if mapped is not None and mapped != week_ord:
              week_ord = mapped
  \<close>
\<close>

definition resolve_activity_week :: "week_start_ts \<Rightarrow> int option \<Rightarrow> int \<Rightarrow> int option" where
  "resolve_activity_week w week_ord ems =
     (if w \<noteq> [] then
        (let mapped = map_epoch w ems
         in case week_ord of
              None \<Rightarrow> mapped
            | Some ord \<Rightarrow>
                (case mapped of
                   None \<Rightarrow> Some ord
                 | Some m \<Rightarrow> if m \<noteq> ord then Some m else Some ord))
      else week_ord)"

text \<open>fleaflicker.py 353-368, on the bucket of the week.\<close>

definition record_activity :: "item \<Rightarrow> string \<Rightarrow> string \<Rightarrow> string \<Rightarrow> bucket \<Rightarrow> bucket" where
  "record_activity activity transaction_type team_id pro_player_id b =
     (if contains transaction_type ''DROP''
      then b\<lparr>drops := drops b @ [\<lparr>mv_team_id = team_id, mv_player_id = Some pro_player_id\<rparr>]\<rparr>
      else if contains transaction_type ''CLAIM''
      then b\<lparr>claims := claims b @ [\<lparr>mv_team_id = team_id, mv_player_id = Some pro_player_id\<rparr>]\<rparr>
      else if contains transaction_type ''ADD''
      then b\<lparr>adds := adds b @ [\<lparr>mv_team_id = team_id, mv_player_id = Some pro_player_id\<rparr>]\<rparr>
      else if contains transaction_type ''TRADE''
      then b\<lparr>trades := trades b @ [RawActivity activity]\<rparr>
      else b)"

text \<open>
  The player id of an activity item (fleaflicker.py 291-306): \<^verbatim>\<open>str(...)\<close> of the id of the
  player block, which is \<^verbatim>\<open>"None"\<close> when the block has no id, or else the first of \<^verbatim>\<open>players\<close>.
\<close>

definition activity_player_id :: "transaction \<Rightarrow> string option" where
  "activity_player_id tx =
     (case tx_player tx of
        Some pb \<Rightarrow> Some (case pb_id pb of None \<Rightarrow> ''None'' | Some i \<Rightarrow> i)
      | None \<Rightarrow> tx_first_player tx)"

definition activity_ordinal :: "transaction \<Rightarrow> int option" where
  "activity_ordinal tx = (case tx_player tx of Some pb \<Rightarrow> pb_ordinal pb | None \<Rightarrow> None)"

text \<open>
  One pass of the loop of fleaflicker.py 270-379 over the activity items. The counts of moves
  and trades per team (\<^verbatim>\<open>league_transactions_by_team\<close>) are not part of the buckets and are
  left out.
\<close>

definition process_activity :: "env \<Rightarrow> item \<Rightarrow> transactions_by_week \<Rightarrow> transactions_by_week" where
  "process_activity e activity tbw =
     (if in_season e (timeEpochMilli activity) then
        (case it_transaction activity of
           None \<Rightarrow> tbw
         | Some tx \<Rightarrow>
             (let transaction_type = type_or_default (tx_type tx);
                  team_id = tx_team_id tx;
                  pro_player_id = activity_player_id tx;
                  week_ord = resolve_activity_week (week_start_ts e) (activity_ordinal tx)
                               (timeEpochMilli activity)
              in if \<not> truthy_int week_ord then tbw
                 else
                   (case (week_ord, pro_player_id) of
                      (Some wk, Some pid) \<Rightarrow>
                        (if pid \<noteq> [] \<and> team_id \<noteq> [] then
                           (case tbw wk of
                              Some b \<Rightarrow>
                                tbw(wk \<mapsto> record_activity activity transaction_type team_id pid b)
                            | None \<Rightarrow> tbw)
                         else tbw)
                    | _ \<Rightarrow> tbw)))
      else tbw)"

section \<open>Completed trades\<close>

text \<open>
  \<^verbatim>\<open>requestedGames[0].period.startEpochMilli\<close> of an obtained player: missing or falsy, an
  integer, or a value on which \<^verbatim>\<open>int(start_ms)\<close> raises.
\<close>

datatype ms_field = MsNone | MsInt int | MsBad

record obtained_player =
  op_id :: "string option"
  op_req_start :: ms_field

record trade_team =
  tt_team_id :: string
  playersObtained :: "obtained_player list"

text \<open>
  A completed trade. \<open>tr_ts\<close> is \<^verbatim>\<open>trade_ts\<close> of fleaflicker.py 403-411: the first of
  \<^verbatim>\<open>approvedOn\<close>, \<^verbatim>\<open>proposedOn\<close>, \<^verbatim>\<open>tentative_execution_time\<close>, \<^verbatim>\<open>executionTimeEpochMilli\<close> that is
  truthy and converts, as \<^verbatim>\<open>int(float(val))\<close>.
\<close>

record trade =
  tr_id :: "int option"
  tr_ts :: "int option"
  tr_teams :: "trade_team list"

text \<open>\<^verbatim>\<open>earliest_start_ts = min(week_start_ts.values()) if week_start_ts else None\<close>\<close>

definition earliest_start_ts :: "week_start_ts \<Rightarrow> int option" where
  "earliest_start_ts w = (case map snd w of [] \<Rightarrow> None | x # xs \<Rightarrow> Some (fold min xs x))"

text \<open>
  fleaflicker.py 436-441: \<open>Inr\<close> the week mapped for one obtained player, \<open>Inl\<close> when
  \<^verbatim>\<open>int(start_ms)\<close> raises inside the \<^verbatim>\<open>try\<close>.
\<close>

definition mapped_week :: "week_start_ts \<Rightarrow> int option \<Rightarrow> obtained_player \<Rightarrow> py_error + int option" where
  "mapped_week w trade_ts p =
     (let mapped = (if truthy_int trade_ts then map_epoch_trade w (the trade_ts) else None)
      in if mapped = None then
           (case op_req_start p of
              MsNone \<Rightarrow> Inr None
            | MsInt start_ms \<Rightarrow> Inr (map_epoch_trade w start_ms)
            | MsBad \<Rightarrow> Inl ValueError)
         else Inr mapped)"

text \<open>
  fleaflicker.py 424-453, the week guess after one obtained player:
  \<^verbatim>\<open>
  if week_start_ts and (trade_ts or not week_guess):
      try:
          mapped = ...
          if mapped is not None:
              week_guess = mapped
          if (week_guess is None and trade_ts is not None
                  and earliest_start_ts is not None and int(trade_ts) < int(earliest_start_ts)):
              week_guess = self.start_week
      except Exception:
          pass
  \<close>
\<close>

definition guess_week :: "env \<Rightarrow> int option \<Rightarrow> obtained_player \<Rightarrow> int option \<Rightarrow> int option" where
  "guess_week e trade_ts p week_guess =
     (if week_start_ts e \<noteq> [] \<and> (truthy_int trade_ts \<or> \<not> truthy_int week_guess) then
        (case mapped_week (week_start_ts e) trade_ts p of
           Inl err \<Rightarrow> week_guess
         | Inr mapped \<Rightarrow>
             (let week_guess' = (case mapped of Some m \<Rightarrow> Some m | None \<Rightarrow> week_guess)
              in case (week_guess', trade_ts, earliest_start_ts (week_start_ts e)) of
                   (None, Some ts, Some earliest) \<Rightarrow>
                     if ts < earliest then Some (start_week e) else week_guess'
                 | _ \<Rightarrow> week_guess'))
      else week_guess)"

text \<open>The loop over \<^verbatim>\<open>entry.get("playersObtained", []) or []\<close>, from \<^verbatim>\<open>week_guess = None\<close>.\<close>

definition entry_week_guess :: "env \<Rightarrow> int option \<Rightarrow> trade_team \<Rightarrow> int option" where
  "entry_week_guess e trade_ts entry =
     fold (guess_week e trade_ts) (playersObtained entry) None"

definition entry_rec_ids :: "trade_team \<Rightarrow> string list" where
  "entry_rec_ids entry = List.map_filter op_id (playersObtained entry)"

text \<open>
  fleaflicker.py 454-458: the element appended to \<^verbatim>\<open>team_received\<close> for one team, if any.
  \<^verbatim>\<open>
  if rec_ids and team_id:
      if not week_guess:
          continue
      team_received.append((team_id, rec_ids, int(week_guess)))
  \<close>
\<close>

definition entry_received :: "env \<Rightarrow> int option \<Rightarrow> trade_team \<Rightarrow> (string \<times> string list \<times> int) option" where
  "entry_received e trade_ts entry =
     (if entry_rec_ids entry \<noteq> [] \<and> tt_team_id entry \<noteq> [] then
        (case entry_week_guess e trade_ts entry of
           None \<Rightarrow> None
         | Some wk \<Rightarrow> if wk = 0 then None else Some (tt_team_id entry, entry_rec_ids entry, wk))
      else None)"

definition team_received :: "env \<Rightarrow> trade \<Rightarrow> (string \<times> string list \<times> int) list" where
  "team_received e tr = List.map_filter (entry_received e (tr_ts tr)) (tr_teams tr)"

text \<open>
  fleaflicker.py 461-477: the sent players of the team at position \<open>idx\<close> are the received
  players of the teams at the other positions of \<^verbatim>\<open>team_received\<close>.
\<close>

definition sent_ids :: "(string \<times> string list \<times> int) list \<Rightarrow> nat \<Rightarrow> string list" where
  "sent_ids received idx =
     concat (map (\<lambda>jdx. if jdx = idx then [] else fst (snd (received ! jdx)))
               [0 ..< length received])"

definition record_trade_row ::
  "trade \<Rightarrow> (string \<times> string list \<times> int) list \<Rightarrow> nat \<Rightarrow> transactions_by_week \<Rightarrow>
   transactions_by_week" where
  "record_trade_row tr received idx tbw =
     (case received ! idx of
        (team_id, rec_ids, week_guess) \<Rightarrow>
          (case tbw week_guess of
             Some b \<Rightarrow>
               tbw(week_guess \<mapsto>
                 b\<lparr>trades := trades b @
                    [TradeRow \<lparr>row_team_id = team_id, players_received = rec_ids,
                               players_sent = sent_ids received idx,
                               row_trade_ts = tr_ts tr, row_trade_id = tr_id tr\<rparr>]\<rparr>)
           | None \<Rightarrow> tbw))"

definition process_trade :: "env \<Rightarrow> trade \<Rightarrow> transactions_by_week \<Rightarrow> transactions_by_week" where
  "process_trade e tr tbw =
     (let received = team_received e tr
      in fold (record_trade_row tr received) [0 ..< length received] tbw)"

section \<open>Per-team transaction feeds\<close>

text \<open>
  An event of the offline cache, \<^verbatim>\<open>{"kind": k, "player_id": p}\<close>; a page of a team's feed,
  with \<open>pg_next\<close> telling whether \<^verbatim>\<open>resultOffsetNext\<close> is truthy; and the feed of a team: its
  cache files by week (\<open>None\<close> when the file is missing or does not load) and the pages the
  platform returns in turn.
\<close>

record cached_event =
  ce_kind :: "string option"
  ce_player_id :: "string option"

record page =
  pg_items :: "item list"
  pg_next :: bool

record team_feed =
  tf_team_id :: string
  tf_cache :: "int \<Rightarrow> cached_event list option"
  tf_pages :: "page list"

text \<open>\<^verbatim>\<open>bucket[kind].append(mv)\<close>; a kind that is no key of the bucket raises \<^verbatim>\<open>KeyError\<close>.\<close>

definition append_kind :: "string \<Rightarrow> move \<Rightarrow> bucket \<Rightarrow> py_error + bucket" where
  "append_kind kind mv b =
     (if kind = ''adds'' then Inr (b\<lparr>adds := adds b @ [mv]\<rparr>)
      else if kind = ''claims'' then Inr (b\<lparr>claims := claims b @ [mv]\<rparr>)
      else if kind = ''drops'' then Inr (b\<lparr>drops := drops b @ [mv]\<rparr>)
      else if kind = ''trades'' then Inr (b\<lparr>trades := trades b @ [TradeMove mv]\<rparr>)
      else Inl KeyError)"

text \<open>
  fleaflicker.py 504:
  \<^verbatim>\<open>self.league.transactions_by_week[wk_key][ev["kind"]].append(
       {"team_id": team_id, "player_id": ev.get("player_id")})\<close>
\<close>

definition hydrate_event ::
  "string \<Rightarrow> int \<times> cached_event \<Rightarrow> transactions_by_week \<Rightarrow> transactions_by_week \<times> py_error option" where
  "hydrate_event team_id wk_ev tbw =
     (case tbw (fst wk_ev) of
        None \<Rightarrow> (tbw, Some KeyError)
      | Some b \<Rightarrow>
          (case ce_kind (snd wk_ev) of
             None \<Rightarrow> (tbw, Some KeyError)
           | Some kind \<Rightarrow>
               (case append_kind kind
                       \<lparr>mv_team_id = team_id, mv_player_id = ce_player_id (snd wk_ev)\<rparr> b of
                  Inl err \<Rightarrow> (tbw, Some err)
                | Inr b' \<Rightarrow> (tbw(fst wk_ev \<mapsto> b'), None))))"

text \<open>fleaflicker.py 490-506: the cached events of the weeks up to the report week, in week order.\<close>

definition cached_events :: "env \<Rightarrow> team_feed \<Rightarrow> (int \<times> cached_event) list" where
  "cached_events e tf =
     concat (map (\<lambda>wk. case tf_cache tf wk of None \<Rightarrow> [] | Some evs \<Rightarrow> map (Pair wk) evs)
               [start_week e .. week_for_report e])"

text \<open>fleaflicker.py 542-565, the week of an item of a team's feed.\<close>

definition resolve_team_week :: "week_start_ts \<Rightarrow> int option \<Rightarrow> int \<Rightarrow> int option" where
  "resolve_team_week w wk_ord ts =
     (if w \<noteq> [] then
        (let mapped = map_epoch w ts
         in if wk_ord = None then mapped
            else if mapped \<noteq> None \<and> mapped \<noteq> wk_ord then mapped
            else wk_ord)
      else wk_ord)"

definition team_kind :: "string \<Rightarrow> string option" where
  "team_kind ttype =
     (if contains ttype ''DROP'' then Some ''drops''
      else if contains ttype ''CLAIM'' then Some ''claims''
      else if contains ttype ''ADD'' then Some ''adds''
      else None)"

text \<open>
  One item of a page (fleaflicker.py 528-589); the state is the buckets and \<^verbatim>\<open>oldest_ts\<close>.
  An item without a transaction is read as \<^verbatim>\<open>{}\<close>.
\<close>

definition process_team_item ::
  "env \<Rightarrow> string \<Rightarrow> item \<Rightarrow> transactions_by_week \<times> int option \<Rightarrow>
   (transactions_by_week \<times> int option) \<times> py_error option" where
  "process_team_item e team_id it st =
     (let tbw = fst st; oldest_ts = snd st;
          ts = timeEpochMilli it;
          ttype = type_or_default (case it_transaction it of None \<Rightarrow> None | Some tx \<Rightarrow> tx_type tx);
          pblock = (case it_transaction it of None \<Rightarrow> None | Some tx \<Rightarrow> tx_player tx);
          pid = (case pblock of None \<Rightarrow> None | Some pb \<Rightarrow> pb_id pb);
          rg_ord = (case pblock of None \<Rightarrow> None | Some pb \<Rightarrow> pb_ordinal pb);
          wk_ord = resolve_team_week (week_start_ts e) rg_ord ts;
          oldest_ts' = (case oldest_ts of
                          None \<Rightarrow> Some ts
                        | Some old \<Rightarrow> if ts < old then Some ts else Some old)
      in case wk_ord of
           None \<Rightarrow> (st, None)
         | Some wk \<Rightarrow>
             if wk = 0 then (st, None)
             else if wk < start_week e \<or> wk > num_regular_season_weeks e then (st, None)
             else
               (case (team_kind ttype, pid) of
                  (Some kind, Some p) \<Rightarrow>
                    (case tbw wk of
                       None \<Rightarrow> (st, Some KeyError)
                     | Some b \<Rightarrow>
                         (case append_kind kind \<lparr>mv_team_id = team_id, mv_player_id = Some p\<rparr> b of
                            Inl err \<Rightarrow> (st, Some err)
                          | Inr b' \<Rightarrow> ((tbw(wk \<mapsto> b'), oldest_ts'), None)))
                | _ \<Rightarrow> ((tbw, oldest_ts'), None)))"

text \<open>
  The paging loop of fleaflicker.py 519-596 over the pages the platform returns. It ends on
  a page without items, on a page without a next offset, and once the oldest item recorded
  on a page predates the earliest known week start. A request beyond the last page of the
  feed fails.
\<close>

fun team_pages ::
  "env \<Rightarrow> string \<Rightarrow> page list \<Rightarrow> transactions_by_week \<Rightarrow> transactions_by_week \<times> py_error option" where
  "team_pages e team_id [] tbw = (tbw, Some NetworkError)"
| "team_pages e team_id (pg # later) tbw =
     (if pg_items pg = [] then (tbw, None)
      else
        (case fold_exc (process_team_item e team_id) (pg_items pg) (tbw, None) of
           ((tbw', oldest_ts), Some err) \<Rightarrow> (tbw', Some err)
         | ((tbw', oldest_ts), None) \<Rightarrow>
             if \<not> pg_next pg then (tbw', None)
             else if truthy_int (earliest_start_ts (week_start_ts e)) \<and> truthy_int oldest_ts
                     \<and> the oldest_ts < the (earliest_start_ts (week_start_ts e)) then (tbw', None)
             else team_pages e team_id later tbw'))"

definition process_team ::
  "env \<Rightarrow> team_feed \<Rightarrow> transactions_by_week \<Rightarrow> transactions_by_week \<times> py_error option" where
  "process_team e tf tbw =
     (if offline e then fold_exc (hydrate_event (tf_team_id tf)) (cached_events e tf) tbw
      else team_pages e (tf_team_id tf) (tf_pages tf) tbw)"

text \<open>
  The transaction normalisation of one adapter run: the buckets are initialised, then filled
  from the activity items, the completed trades and the teams' feeds. An exception in the
  last phase is caught by the handler of fleaflicker.py 610 and ends that phase.
\<close>

definition normalize_transactions ::
  "env \<Rightarrow> item list \<Rightarrow> trade list \<Rightarrow> team_feed list \<Rightarrow> transactions_by_week \<Rightarrow>
   transactions_by_week" where
  "normalize_transactions e activity_items trades_feed teams tbw =
     fst (fold_exc (process_team e) teams
            (fold (process_trade e) trades_feed
               (fold (process_activity e) activity_items (init_buckets e tbw))))"

text \<open>
  The rows that \<open>record_trade_row\<close> appends to the bucket of the week \<open>w\<close> for the positions
  \<open>idxs\<close> of \<^verbatim>\<open>team_received\<close>.
\<close>

definition trade_rows_at ::
  "trade \<Rightarrow> (string \<times> string list \<times> int) list \<Rightarrow> int \<Rightarrow> nat list \<Rightarrow> trade_event list" where
  "trade_rows_at tr received w idxs =
     map (\<lambda>idx. TradeRow \<lparr>row_team_id = fst (received ! idx),
                            players_received = fst (snd (received ! idx)),
                            players_sent = sent_ids received idx,
                            row_trade_ts = tr_ts tr, row_trade_id = tr_id tr\<rparr>)
         (filter (\<lambda>idx. snd (snd (received ! idx)) = w) idxs)"

text \<open>
  An obtained player whose requested games give no week: there is no start time, or the
  start time lies in no known window.
\<close>

definition start_unmapped :: "week_start_ts \<Rightarrow> obtained_player \<Rightarrow> bool" where
  "start_unmapped w p =
     (case op_req_start p of
        MsNone \<Rightarrow> True
      | MsInt start_ms \<Rightarrow> map_epoch_trade w start_ms = None
      | MsBad \<Rightarrow> False)"

section \<open>Report data: the z-score table\<close>

text \<open>
  \<^verbatim>\<open>z_score_results\<close> is a dictionary from team id to a z-score or \<^verbatim>\<open>None\<close>, in insertion order;
  \<^verbatim>\<open>self.teams_results\<close> maps a team id to the team, of which the table shows the name and the
  managers. A cell of the last column is the rounded z-score or the text \<^verbatim>\<open>"N/A"\<close>.
\<close>

record team_result =
  res_name :: string
  res_manager_str :: string

datatype z_cell = ZScore rat | NotAvailable

record z_row =
  z_rank :: nat
  z_team_name :: string
  z_manager_str :: string
  z_value :: z_cell

text \<open>\<^verbatim>\<open>0 if not z_score_val else z_score_val\<close>\<close>

definition coerce_z :: "rat option \<Rightarrow> rat" where
  "coerce_z z_score_val =
     (case z_score_val of None \<Rightarrow> 0 | Some z \<Rightarrow> if z = 0 then 0 else z)"

text \<open>
  data.py 221-229: \<open>None\<close> when the table is not created, else the values that are ranked.
  The last branch is taken when no value is \<^verbatim>\<open>None\<close> and leaves the dictionary as it is.
\<close>

definition z_scores_to_rank :: "(string \<times> rat option) list \<Rightarrow> (string \<times> rat) list option" where
  "z_scores_to_rank z_score_results =
     (if list_all (\<lambda>kv. snd kv = None) z_score_results then None
      else if list_ex (\<lambda>kv. snd kv = None) z_score_results
      then Some (map (\<lambda>kv. (fst kv, coerce_z (snd kv))) z_score_results)
      else Some (map (\<lambda>kv. (fst kv, case snd kv of Some z \<Rightarrow> z | None \<Rightarrow> 0)) z_score_results))"

text \<open>
  \<^verbatim>\<open>sorted(z_score_results.items(), key=lambda x: x[1], reverse=True)\<close>: descending, and stable
  as Python's \<^verbatim>\<open>sorted\<close> is also with \<^verbatim>\<open>reverse=True\<close>.
\<close>

definition ranked_z_scores :: "(string \<times> rat) list \<Rightarrow> (string \<times> rat) list" where
  "ranked_z_scores z = sort_key (\<lambda>kv. - snd kv) z"

text \<open>
  data.py 232-241, one pass of the loop; the state is the table and \<^verbatim>\<open>z_score_rank\<close>.
  \<^verbatim>\<open>self.teams_results[k_v[0]]\<close> raises \<^verbatim>\<open>KeyError\<close> for an unknown team.
\<close>

definition z_score_row ::
  "(string \<rightharpoonup> team_result) \<Rightarrow> string \<times> rat \<Rightarrow> z_row list \<times> nat \<Rightarrow> py_error + z_row list \<times> nat" where
  "z_score_row teams_results k_v st =
     (let z_score = (if snd k_v \<noteq> 0 then ZScore (round2 (snd k_v)) else NotAvailable)
      in case teams_results (fst k_v) of
           None \<Rightarrow> Inl KeyError
         | Some team \<Rightarrow>
             Inr (fst st @ [\<lparr>z_rank = snd st, z_team_name = res_name team,
                              z_manager_str = res_manager_str team, z_value = z_score\<rparr>],
                  snd st + 1))"

definition data_for_z_scores ::
  "(string \<rightharpoonup> team_result) \<Rightarrow> (string \<times> rat option) list \<Rightarrow> py_error + z_row list" where
  "data_for_z_scores teams_results z_score_results =
     (case z_scores_to_rank z_score_results of
        None \<Rightarrow> Inr []
      | Some z \<Rightarrow>
          (case fold_err (z_score_row teams_results) (ranked_z_scores z) ([], 1) of
             Inl e \<Rightarrow> Inl e
           | Inr st \<Rightarrow> Inr (fst st)))"

text \<open>The row of the table for a ranked value, given the team and the rank.\<close>

definition z_row_of :: "(string \<rightharpoonup> team_result) \<Rightarrow> nat \<Rightarrow> string \<times> rat \<Rightarrow> z_row option" where
  "z_row_of teams_results rank k_v =
     map_option (\<lambda>team. \<lparr>z_rank = rank, z_team_name = res_name team,
                          z_manager_str = res_manager_str team,
                          z_value = (if snd k_v \<noteq> 0 then ZScore (round2 (snd k_v)) else NotAvailable)\<rparr>)
       (teams_results (fst k_v))"

section \<open>Report data: transaction awards\<close>

text \<open>
  The award block of \<^verbatim>\<open>ReportData.__init__\<close> (data.py 365-594) reads the players of the week
  (\<^verbatim>\<open>league.players_by_week\<close>, a dictionary keyed by player id, which is an integer or a
  string), the free agents, the teams of the week with their rosters, the bench positions
  and the week's bucket of transactions. A player object is truthy. \<open>rp_id\<close> is
  \<^verbatim>\<open>str(p.player_id)\<close> of a roster entry. \<open>int_of_str\<close> is Python's \<^verbatim>\<open>int\<close> on a string, a
  parameter of the model; \<open>None\<close> stands for \<^verbatim>\<open>ValueError\<close>.
\<close>

datatype pkey = IntKey int | StrKey string

record player =
  pl_points :: rat
  pl_full_name :: "string option"

type_synonym players = "pkey \<Rightarrow> player option"

record roster_player =
  rp_id :: string
  rp_selected_position :: "string option"

record report_team =
  rt_name :: string
  rt_manager_str :: string
  rt_roster :: "roster_player list"

record report_ctx =
  int_of_str :: "string \<Rightarrow> int option"
  curr_players :: players
  prev_players :: players
  curr_free_agents :: players
  players_by_week :: "players list"
  curr_team_objs :: "string \<rightharpoonup> report_team"
  bench_positions :: "string list"
  events :: bucket

text \<open>
  A row of an award table, \<^verbatim>\<open>[team name, managers, player or detail, f"{pts:.2f}"]\<close>; the last
  component is kept as the number the formatted text denotes. An honorable mention is kept
  as the team, the player and the number of its text.
\<close>

record award_row =
  aw_team :: string
  aw_manager :: string
  aw_detail :: string
  aw_points :: rat

record honorable_mention =
  hm_team :: string
  hm_player :: string
  hm_points :: rat

record awards =
  transactions_awards_best_fa_pickups :: "award_row list"
  transactions_awards_best_fa_pickups_hm :: "honorable_mention option"
  transactions_awards_worst_fa_pickups :: "award_row list"
  transactions_awards_worst_fa_pickups_hm :: "honorable_mention option"
  transactions_awards_best_drops :: "award_row list"
  transactions_awards_worst_drops :: "award_row list"
  transactions_awards_best_trades :: "award_row list"
  transactions_awards_worst_trades :: "award_row list"

text \<open>data.py 116-123: the attributes before the block runs.\<close>

definition no_awards :: awards where
  "no_awards =
     \<lparr>transactions_awards_best_fa_pickups = [], transactions_awards_best_fa_pickups_hm = None,
      transactions_awards_worst_fa_pickups = [], transactions_awards_worst_fa_pickups_hm = None,
      transactions_awards_best_drops = [], transactions_awards_worst_drops = [],
      transactions_awards_best_trades = [], transactions_awards_worst_trades = []\<rparr>"

text \<open>\<^verbatim>\<open>curr_players.get(pid) or curr_players.get(int(pid))\<close>\<close>

definition lookup_player :: "(string \<Rightarrow> int option) \<Rightarrow> players \<Rightarrow> string \<Rightarrow> py_error + player option" where
  "lookup_player ios ps pid =
     (case ps (StrKey pid) of
        Some bp \<Rightarrow> Inr (Some bp)
      | None \<Rightarrow>
          (case ios pid of
             None \<Rightarrow> Inl ValueError
           | Some n \<Rightarrow> Inr (ps (IntKey n))))"

text \<open>\<^verbatim>\<open>str(ev.get("player_id"))\<close>, and the fields data.py 385-388 and 562-565 read of a trade event.\<close>

definition pid_str :: "string option \<Rightarrow> string" where
  "pid_str p = (case p of None \<Rightarrow> ''None'' | Some i \<Rightarrow> i)"

fun ev_team_id :: "trade_event \<Rightarrow> string" where
  "ev_team_id (TradeRow r) = row_team_id r"
| "ev_team_id (TradeMove mv) = mv_team_id mv"
| "ev_team_id (RawActivity a) = ''None''"

fun ev_received :: "trade_event \<Rightarrow> string list" where
  "ev_received (TradeRow r) = players_received r"
| "ev_received (TradeMove mv) = []"
| "ev_received (RawActivity a) = []"

fun ev_sent :: "trade_event \<Rightarrow> string list" where
  "ev_sent (TradeRow r) = players_sent r"
| "ev_sent (TradeMove mv) = []"
| "ev_sent (RawActivity a) = []"

definition trade_received_by_team :: "trade_event list \<Rightarrow> string \<Rightarrow> string list" where
  "trade_received_by_team trs ttid =
     concat (map ev_received (filter (\<lambda>tr. ev_team_id tr = ttid) trs))"

text \<open>
  data.py 390-398: the candidates \<^verbatim>\<open>(team_id, player_id, points)\<close> of the adds and claims.
\<close>

type_synonym candidate = "string \<times> string \<times> rat"

definition fa_candidate :: "report_ctx \<Rightarrow> move \<Rightarrow> candidate list \<Rightarrow> py_error + candidate list" where
  "fa_candidate c ev fa =
     (let tid = mv_team_id ev; pid_s = pid_str (mv_player_id ev)
      in if pid_s \<in> set (trade_received_by_team (trades (events c)) tid) then Inr fa
         else
           (case lookup_player (int_of_str c) (curr_players c) pid_s of
              Inl e \<Rightarrow> Inl e
            | Inr bp \<Rightarrow>
                Inr (fa @ [(tid, pid_s, case bp of Some p \<Rightarrow> pl_points p | None \<Rightarrow> 0)])))"

definition fa_candidates :: "report_ctx \<Rightarrow> py_error + candidate list" where
  "fa_candidates c = fold_err (fa_candidate c) (adds (events c) @ claims (events c)) []"

text \<open>data.py 400-411: the points of a dropped player.\<close>

definition drop_points :: "report_ctx \<Rightarrow> string \<Rightarrow> py_error + rat" where
  "drop_points c pid_s =
     (case lookup_player (int_of_str c) (curr_players c) pid_s of
        Inl e \<Rightarrow> Inl e
      | Inr (Some bp) \<Rightarrow> Inr (pl_points bp)
      | Inr None \<Rightarrow>
          (case curr_free_agents c (StrKey pid_s) of
             Some fa \<Rightarrow> Inr (pl_points fa)
           | None \<Rightarrow> Inr 0))"

text \<open>
  \<^verbatim>\<open>resolve_name\<close> (data.py 420-437). \<open>name_of\<close> is \<^verbatim>\<open>getattr(bp, 'full_name', None)\<close> when truthy;
  the search through all weeks runs inside a \<^verbatim>\<open>try\<close> whose handler passes.
\<close>

definition name_of :: "player option \<Rightarrow> string option" where
  "name_of bp =
     (case bp of
        None \<Rightarrow> None
      | Some p \<Rightarrow> (case pl_full_name p of None \<Rightarrow> None | Some n \<Rightarrow> if n = [] then None else Some n))"

fun search_weeks :: "(string \<Rightarrow> int option) \<Rightarrow> players list \<Rightarrow> string \<Rightarrow> string option" where
  "search_weeks ios [] pid = None"
| "search_weeks ios (wk_players # later) pid =
     (case lookup_player ios wk_players pid of
        Inl e \<Rightarrow> None
      | Inr hit \<Rightarrow>
          (case name_of hit of Some n \<Rightarrow> Some n | None \<Rightarrow> search_weeks ios later pid))"

definition first_found :: "report_ctx \<Rightarrow> string \<Rightarrow> py_error + player option" where
  "first_found c pid =
     (case lookup_player (int_of_str c) (curr_players c) pid of
        Inl e \<Rightarrow> Inl e
      | Inr (Some bp) \<Rightarrow> Inr (Some bp)
      | Inr None \<Rightarrow>
          (case lookup_player (int_of_str c) (prev_players c) pid of
             Inl e \<Rightarrow> Inl e
           | Inr (Some bp) \<Rightarrow> Inr (Some bp)
           | Inr None \<Rightarrow> Inr (curr_free_agents c (StrKey pid))))"

definition resolve_name :: "report_ctx \<Rightarrow> string \<Rightarrow> py_error + string" where
  "resolve_name c pid =
     (case first_found c pid of
        Inl e \<Rightarrow> Inl e
      | Inr bp \<Rightarrow>
          (case name_of bp of
             Some n \<Rightarrow> Inr n
           | None \<Rightarrow>
               (case search_weeks (int_of_str c) (players_by_week c) pid of
                  Some n \<Rightarrow> Inr n
                | None \<Rightarrow> Inr pid)))"

text \<open>
  data.py 443-449: a pickup is started when its team has the player on the roster with a
  selected position that is no bench position. \<^verbatim>\<open>team_rosters[tid]\<close> is a dictionary built from
  the roster, so the last entry of a player id is the one found.
\<close>

definition is_started :: "report_ctx \<Rightarrow> candidate \<Rightarrow> bool" where
  "is_started c cand =
     (case curr_team_objs c (fst cand) of
        None \<Rightarrow> False
      | Some t \<Rightarrow>
          (case find (\<lambda>p. rp_id p = fst (snd cand)) (rev (rt_roster t)) of
             None \<Rightarrow> False
           | Some p \<Rightarrow>
               (case rp_selected_position p of
                  None \<Rightarrow> False
                | Some pos \<Rightarrow> pos \<noteq> [] \<and> pos \<notin> set (bench_positions c))))"

definition started_fa :: "report_ctx \<Rightarrow> candidate list \<Rightarrow> candidate list" where
  "started_fa c fa = filter (is_started c) fa"

definition benched_fa :: "report_ctx \<Rightarrow> candidate list \<Rightarrow> candidate list" where
  "benched_fa c fa = filter (\<lambda>cand. \<not> is_started c cand) fa"

text \<open>
  \<^verbatim>\<open>sorted(xs, key=lambda x: x[2], reverse=True)\<close> and \<^verbatim>\<open>sorted(xs, key=lambda x: x[2])\<close>, both
  stable.
\<close>

definition by_points_desc :: "candidate list \<Rightarrow> candidate list" where
  "by_points_desc xs = sort_key (\<lambda>x. - snd (snd x)) xs"

definition by_points_asc :: "candidate list \<Rightarrow> candidate list" where
  "by_points_asc xs = sort_key (\<lambda>x. snd (snd x)) xs"

text \<open>
  The row of a winner: \<^verbatim>\<open>if best_tid in team_lookup: ... = [[team_lookup[best_tid][0],
  team_lookup[best_tid][1], resolve_name(str(best_pid)), f"{best_pts:.2f}"]]\<close>; \<open>Inr None\<close> when
  the team is not in \<^verbatim>\<open>team_lookup\<close>.
\<close>

definition winner_row :: "report_ctx \<Rightarrow> candidate \<Rightarrow> py_error + award_row list option" where
  "winner_row c cand =
     (case curr_team_objs c (fst cand) of
        None \<Rightarrow> Inr None
      | Some t \<Rightarrow>
          (case resolve_name c (fst (snd cand)) of
             Inl e \<Rightarrow> Inl e
           | Inr name \<Rightarrow>
               Inr (Some [\<lparr>aw_team = rt_name t, aw_manager = rt_manager_str t,
                            aw_detail = name, aw_points = round2 (snd (snd cand))\<rparr>])))"

definition mention :: "report_ctx \<Rightarrow> candidate \<Rightarrow> py_error + honorable_mention option" where
  "mention c cand =
     (case curr_team_objs c (fst cand) of
        None \<Rightarrow> Inr None
      | Some t \<Rightarrow>
          (case resolve_name c (fst (snd cand)) of
             Inl e \<Rightarrow> Inl e
           | Inr name \<Rightarrow>
               Inr (Some \<lparr>hm_team = rt_name t, hm_player = name,
                           hm_points = round2 (snd (snd cand))\<rparr>)))"

text \<open>
  data.py 474-495, the best free-agent pickup:
  \<^verbatim>\<open>
  if started_fa:
      best_tid, best_pid, best_pts = sorted(started_fa, key=lambda x: x[2], reverse=True)[0]
      if best_tid in team_lookup:
          self.transactions_awards_best_fa_pickups = [[...]]
      self.transactions_awards_best_fa_pickups_hm = None
      if benched_fa:
          hm_tid, hm_pid, hm_pts = sorted(benched_fa, key=lambda x: x[2], reverse=True)[0]
          if hm_tid in team_lookup and hm_pts > best_pts:
              self.transactions_awards_best_fa_pickups_hm = (...)
  elif benched_fa:
      best_tid, best_pid, best_pts = sorted(benched_fa, key=lambda x: x[2], reverse=True)[0]
      if best_tid in team_lookup:
          self.transactions_awards_best_fa_pickups = [[...]]
  \<close>
\<close>

definition best_fa_step ::
  "report_ctx \<Rightarrow> candidate list \<Rightarrow> candidate list \<Rightarrow> awards \<Rightarrow> awards \<times> py_error option" where
  "best_fa_step c started benched aw =
     (case by_points_desc started of
        best # _ \<Rightarrow>
          (case winner_row c best of
             Inl e \<Rightarrow> (aw, Some e)
           | Inr row \<Rightarrow>
               (let aw1 = (case row of
                             None \<Rightarrow> aw
                           | Some r \<Rightarrow> aw\<lparr>transactions_awards_best_fa_pickups := r\<rparr>);
                    aw2 = aw1\<lparr>transactions_awards_best_fa_pickups_hm := None\<rparr>
                in case by_points_desc benched of
                     [] \<Rightarrow> (aw2, None)
                   | hm # _ \<Rightarrow>
                       if curr_team_objs c (fst hm) \<noteq> None \<and> snd (snd hm) > snd (snd best)
                       then (case mention c hm of
                               Inl e \<Rightarrow> (aw2, Some e)
                             | Inr m \<Rightarrow> (aw2\<lparr>transactions_awards_best_fa_pickups_hm := m\<rparr>, None))
                       else (aw2, None)))
      | [] \<Rightarrow>
          (case by_points_desc benched of
             [] \<Rightarrow> (aw, None)
           | best # _ \<Rightarrow>
               (case winner_row c best of
                  Inl e \<Rightarrow> (aw, Some e)
                | Inr None \<Rightarrow> (aw, None)
                | Inr (Some r) \<Rightarrow> (aw\<lparr>transactions_awards_best_fa_pickups := r\<rparr>, None))))"

text \<open>data.py 497-517, the worst free-agent pickup, with the ascending order and \<^verbatim>\<open><\<close>.\<close>

definition worst_fa_step ::
  "report_ctx \<Rightarrow> candidate list \<Rightarrow> candidate list \<Rightarrow> awards \<Rightarrow> awards \<times> py_error option" where
  "worst_fa_step c started benched aw =
     (case by_points_asc started of
        worst # _ \<Rightarrow>
          (case winner_row c worst of
             Inl e \<Rightarrow> (aw, Some e)
           | Inr row \<Rightarrow>
               (let aw1 = (case row of
                             None \<Rightarrow> aw
                           | Some r \<Rightarrow> aw\<lparr>transactions_awards_worst_fa_pickups := r\<rparr>);
                    aw2 = aw1\<lparr>transactions_awards_worst_fa_pickups_hm := None\<rparr>
                in case by_points_asc benched of
                     [] \<Rightarrow> (aw2, None)
                   | hm # _ \<Rightarrow>
                       if curr_team_objs c (fst hm) \<noteq> None \<and> snd (snd hm) < snd (snd worst)
                       then (case mention c hm of
                               Inl e \<Rightarrow> (aw2, Some e)
                             | Inr m \<Rightarrow> (aw2\<lparr>transactions_awards_worst_fa_pickups_hm := m\<rparr>, None))
                       else (aw2, None)))
      | [] \<Rightarrow>
          (case by_points_asc benched of
             [] \<Rightarrow> (aw, None)
           | worst # _ \<Rightarrow>
               (case winner_row c worst of
                  Inl e \<Rightarrow> (aw, Some e)
                | Inr None \<Rightarrow> (aw, None)
                | Inr (Some r) \<Rightarrow> (aw\<lparr>transactions_awards_worst_fa_pickups := r\<rparr>, None))))"

text \<open>
  data.py 519-534, the drop awards. \<^verbatim>\<open>drop_candidates.sort\<close> sorts in place; the name is resolved
  before the team is looked up.
\<close>

definition drop_row :: "report_ctx \<Rightarrow> candidate \<Rightarrow> string \<Rightarrow> award_row list option" where
  "drop_row c cand name =
     map_option (\<lambda>t. [\<lparr>aw_team = rt_name t, aw_manager = rt_manager_str t, aw_detail = name,
                        aw_points = round2 (snd (snd cand))\<rparr>])
       (curr_team_objs c (fst cand))"

definition drops_step ::
  "report_ctx \<Rightarrow> candidate list \<times> awards \<Rightarrow> (candidate list \<times> awards) \<times> py_error option" where
  "drops_step c st =
     (let asc = by_points_asc (fst st); aw = snd st
      in case asc of
           [] \<Rightarrow> (st, None)
         | best # _ \<Rightarrow>
             (case resolve_name c (fst (snd best)) of
                Inl e \<Rightarrow> ((asc, aw), Some e)
              | Inr name \<Rightarrow>
                  (let aw1 = (case drop_row c best name of
                                None \<Rightarrow> aw
                              | Some r \<Rightarrow> aw\<lparr>transactions_awards_best_drops := r\<rparr>);
                       desc = by_points_desc asc
                   in case desc of
                        [] \<Rightarrow> ((desc, aw1), None)
                      | worst # _ \<Rightarrow>
                          (case resolve_name c (fst (snd worst)) of
                             Inl e \<Rightarrow> ((desc, aw1), Some e)
                           | Inr name' \<Rightarrow>
                               ((desc,
                                 case drop_row c worst name' of
                                   None \<Rightarrow> aw1
                                 | Some r \<Rightarrow> aw1\<lparr>transactions_awards_worst_drops := r\<rparr>),
                                None)))))"

text \<open>
  data.py 560-594, the trade awards. The sum of the points of the players that are found:
  \<^verbatim>\<open>sum(float((curr_players.get(pid) or curr_players.get(int(pid))).points)
        for pid in rec_ids if (curr_players.get(pid) or curr_players.get(int(pid))))\<close>
\<close>

definition add_points :: "report_ctx \<Rightarrow> string \<Rightarrow> rat \<Rightarrow> py_error + rat" where
  "add_points c pid acc =
     (case lookup_player (int_of_str c) (curr_players c) pid of
        Inl e \<Rightarrow> Inl e
      | Inr None \<Rightarrow> Inr acc
      | Inr (Some p) \<Rightarrow> Inr (acc + pl_points p))"

definition points_sum :: "report_ctx \<Rightarrow> string list \<Rightarrow> py_error + rat" where
  "points_sum c ids = fold_err (add_points c) ids 0"

text \<open>\<^verbatim>\<open>", ".join(out)\<close> of the resolved names of \<^verbatim>\<open>ids[:2]\<close>; the ids are not empty where it is called.\<close>

fun join_comma :: "string list \<Rightarrow> string" where
  "join_comma [] = []"
| "join_comma [n] = n"
| "join_comma (n # later) = n @ '', '' @ join_comma later"

definition append_name :: "report_ctx \<Rightarrow> string \<Rightarrow> string list \<Rightarrow> py_error + string list" where
  "append_name c pid out =
     (case resolve_name c pid of Inl e \<Rightarrow> Inl e | Inr n \<Rightarrow> Inr (out @ [n]))"

definition names :: "report_ctx \<Rightarrow> string list \<Rightarrow> py_error + string" where
  "names c ids =
     (case fold_err (append_name c) (take 2 ids) [] of
        Inl e \<Rightarrow> Inl e
      | Inr out \<Rightarrow> Inr (join_comma out))"

text \<open>
  One event of the trades of the week (data.py 562-588):
  \<^verbatim>\<open>
  if not rec_ids or not sent_ids:
      continue
  recv_pts = ...; sent_pts = ...
  net = recv_pts - sent_pts
  detail = f"{names(rec_ids)} vs {names(sent_ids)}"
  if team_id in team_lookup:
      tname, mgr = team_lookup[team_id]
      trade_rows.append([tname, mgr, detail, f"{net:.2f}"])
  \<close>
\<close>

definition trade_eligible :: "trade_event \<Rightarrow> bool" where
  "trade_eligible tr = (ev_received tr \<noteq> [] \<and> ev_sent tr \<noteq> [])"

definition trade_award_row :: "report_ctx \<Rightarrow> trade_event \<Rightarrow> award_row list \<Rightarrow> py_error + award_row list" where
  "trade_award_row c tr trade_rows =
     (if \<not> trade_eligible tr then Inr trade_rows
      else
        (case points_sum c (ev_received tr) of
           Inl e \<Rightarrow> Inl e
         | Inr recv_pts \<Rightarrow>
             (case points_sum c (ev_sent tr) of
                Inl e \<Rightarrow> Inl e
              | Inr sent_pts \<Rightarrow>
                  (case names c (ev_received tr) of
                     Inl e \<Rightarrow> Inl e
                   | Inr names_rec \<Rightarrow>
                       (case names c (ev_sent tr) of
                          Inl e \<Rightarrow> Inl e
                        | Inr names_sent \<Rightarrow>
                            (case curr_team_objs c (ev_team_id tr) of
                               None \<Rightarrow> Inr trade_rows
                             | Some t \<Rightarrow>
                                 Inr (trade_rows @
                                      [\<lparr>aw_team = rt_name t, aw_manager = rt_manager_str t,
                                        aw_detail = names_rec @ '' vs '' @ names_sent,
                                        aw_points = round2 (recv_pts - sent_pts)\<rparr>])))))))"

definition trade_rows :: "report_ctx \<Rightarrow> py_error + award_row list" where
  "trade_rows c = fold_err (trade_award_row c) (trades (events c)) []"

text \<open>
  data.py 590-594:
  \<^verbatim>\<open>
  if trade_rows:
      trade_rows.sort(key=lambda r: float(r[-1]), reverse=True)
      self.transactions_awards_best_trades = trade_rows[:1]
      trade_rows.sort(key=lambda r: float(r[-1]))
      self.transactions_awards_worst_trades = trade_rows[:1]
  \<close>
\<close>

definition trades_step :: "report_ctx \<Rightarrow> awards \<Rightarrow> awards \<times> py_error option" where
  "trades_step c aw =
     (case trade_rows c of
        Inl e \<Rightarrow> (aw, Some e)
      | Inr rows \<Rightarrow>
          if rows \<noteq> [] then
            (let desc = sort_key (\<lambda>r. - aw_points r) rows;
                 asc = sort_key aw_points desc
             in (aw\<lparr>transactions_awards_best_trades := take 1 desc,
                    transactions_awards_worst_trades := take 1 asc\<rparr>, None))
          else (aw, None))"

text \<open>
  One pass of the loop \<^verbatim>\<open>for ev in events.get("drops", [])\<close> of data.py 400-594. In the source
  the statements from line 413 to line 594 are indented under this loop, so the pickup, drop
  and trade awards are computed in its body, once per drop event. The owner-change maps of
  lines 536-558 are not used afterwards and are left out.
\<close>

definition award_pass ::
  "report_ctx \<Rightarrow> candidate list \<Rightarrow> move \<Rightarrow> candidate list \<times> awards \<Rightarrow>
   (candidate list \<times> awards) \<times> py_error option" where
  "award_pass c fa ev st =
     (let tid = mv_team_id ev; pid_s = pid_str (mv_player_id ev)
      in case drop_points c pid_s of
           Inl e \<Rightarrow> (st, Some e)
         | Inr pts \<Rightarrow>
             (let drop_candidates = fst st @ [(tid, pid_s, pts)]
              in case best_fa_step c (started_fa c fa) (benched_fa c fa) (snd st) of
                   (aw1, Some e) \<Rightarrow> ((drop_candidates, aw1), Some e)
                 | (aw1, None) \<Rightarrow>
                     (case worst_fa_step c (started_fa c fa) (benched_fa c fa) aw1 of
                        (aw2, Some e) \<Rightarrow> ((drop_candidates, aw2), Some e)
                      | (aw2, None) \<Rightarrow>
                          (case drops_step c (drop_candidates, aw2) of
                             (st3, Some e) \<Rightarrow> (st3, Some e)
                           | (st3, None) \<Rightarrow>
                               (case trades_step c (snd st3) of
                                  (aw4, err) \<Rightarrow> ((fst st3, aw4), err))))))"

text \<open>
  The block from data.py 365 to 594. It runs inside the \<^verbatim>\<open>try\<close> of line 308, whose handler
  (line 595) logs the exception and goes on: the attributes keep what was assigned before the
  exception. The result is the attributes and the exception that ended the block, if any.
\<close>

definition transactions_awards :: "report_ctx \<Rightarrow> awards \<Rightarrow> awards \<times> py_error option" where
  "transactions_awards c aw =
     (case fa_candidates c of
        Inl e \<Rightarrow> (aw, Some e)
      | Inr fa \<Rightarrow>
          (case fold_exc (award_pass c fa) (drops (events c)) ([], aw) of
             (st, err) \<Rightarrow> (snd st, err)))"

text \<open>\<^verbatim>\<open>if int(week_counter) == int(week_for_report)\<close> (data.py 310)\<close>

definition report_awards :: "int \<Rightarrow> int \<Rightarrow> report_ctx \<Rightarrow> awards" where
  "report_awards week_counter report_week c =
     (if week_counter = report_week then fst (transactions_awards c no_awards) else no_awards)"

section \<open>Example inputs\<close>

text \<open>A league of three regular-season weeks with known starts, and an add of player 42 by team 7.\<close>

definition env_example :: env where
  "env_example =
     \<lparr>start_week = 1, week_for_report = 2, num_regular_season_weeks = 3,
      week_start_ts = [(1, 1000), (2, 5000), (3, 9000)], in_season = (\<lambda>t. True), offline = False\<rparr>"

text \<open>
  A completed trade between the teams A and B without a trade timestamp: the player obtained
  by A has requested games starting in week 1, the player obtained by B has none.
\<close>

definition trade_example :: trade where
  "trade_example =
     \<lparr>tr_id = Some 5, tr_ts = None,
      tr_teams =
        [\<lparr>tt_team_id = ''A'',
          playersObtained = [\<lparr>op_id = Some ''10'', op_req_start = MsInt 1500\<rparr>]\<rparr>,
         \<lparr>tt_team_id = ''B'',
          playersObtained = [\<lparr>op_id = Some ''20'', op_req_start = MsNone\<rparr>]\<rparr>]\<rparr>"

text \<open>
  A completed trade approved at epoch 500, before the first known week start (1000); no
  obtained player has requested games.
\<close>

definition offseason_trade :: trade where
  "offseason_trade =
     \<lparr>tr_id = Some 6, tr_ts = Some 500,
      tr_teams =
        [\<lparr>tt_team_id = ''A'',
          playersObtained = [\<lparr>op_id = Some ''10'', op_req_start = MsNone\<rparr>]\<rparr>,
         \<lparr>tt_team_id = ''B'',
          playersObtained = [\<lparr>op_id = Some ''20'', op_req_start = MsNone\<rparr>]\<rparr>]\<rparr>"

text \<open>
  Scenario B of the specification: team T picked up player P (id 1), started him at QB and
  he scored 12.5; team U picked up player Q (id 2), kept him on the bench and he scored 20.
  Scenario C: team T received the players A and B (ids 4 and 5, 10 and 5 points) for player
  C (id 6, 20 points). Player D (id 3) is a player somebody dropped.
\<close>

definition example_int_of_str :: "string \<Rightarrow> int option" where
  "example_int_of_str s =
     (if s = ''1'' then Some 1 else if s = ''2'' then Some 2 else if s = ''3'' then Some 3
      else if s = ''4'' then Some 4 else if s = ''5'' then Some 5 else if s = ''6'' then Some 6
      else None)"

definition example_players :: players where
  "example_players k =
     (if k = IntKey 1 then Some \<lparr>pl_points = 25 / 2, pl_full_name = Some ''P''\<rparr>
      else if k = IntKey 2 then Some \<lparr>pl_points = 20, pl_full_name = Some ''Q''\<rparr>
      else if k = IntKey 3 then Some \<lparr>pl_points = 1, pl_full_name = Some ''D''\<rparr>
      else if k = IntKey 4 then Some \<lparr>pl_points = 10, pl_full_name = Some ''A''\<rparr>
      else if k = IntKey 5 then Some \<lparr>pl_points = 5, pl_full_name = Some ''B''\<rparr>
      else if k = IntKey 6 then Some \<lparr>pl_points = 20, pl_full_name = Some ''C''\<rparr>
      else None)"

definition example_teams :: "string \<rightharpoonup> report_team" where
  "example_teams =
     [''T'' \<mapsto> \<lparr>rt_name = ''Team T'', rt_manager_str = ''Tess'',
                  rt_roster = [\<lparr>rp_id = ''1'', rp_selected_position = Some ''QB''\<rparr>]\<rparr>,
      ''U'' \<mapsto> \<lparr>rt_name = ''Team U'', rt_manager_str = ''Uma'',
                  rt_roster = [\<lparr>rp_id = ''2'', rp_selected_position = Some ''BN''\<rparr>]\<rparr>]"

definition example_ctx :: "bucket \<Rightarrow> report_ctx" where
  "example_ctx b =
     \<lparr>int_of_str = example_int_of_str, curr_players = example_players,
      prev_players = (\<lambda>k. None), curr_free_agents = (\<lambda>k. None),
      players_by_week = [example_players], curr_team_objs = example_teams,
      bench_positions = [''BN'', ''IR''], events = b\<rparr>"

definition pickups_B :: "move list" where
  "pickups_B = [\<lparr>mv_team_id = ''T'', mv_player_id = Some ''1''\<rparr>,
                \<lparr>mv_team_id = ''U'', mv_player_id = Some ''2''\<rparr>]"

definition drop_D :: move where
  "drop_D = \<lparr>mv_team_id = ''U'', mv_player_id = Some ''3''\<rparr>"

definition trade_C :: trade_event where
  "trade_C = TradeRow \<lparr>row_team_id = ''T'', players_received = [''4'', ''5''],
                         players_sent = [''6''], row_trade_ts = None, row_trade_id = Some 9\<rparr>"

text \<open>Two teams of a report.\<close>

definition z_teams_example :: "string \<rightharpoonup> team_result" where
  "z_teams_example =
     [''1'' \<mapsto> \<lparr>res_name = ''One'', res_manager_str = ''Al''\<rparr>,
      ''2'' \<mapsto> \<lparr>res_name = ''Two'', res_manager_str = ''Bo''\<rparr>]"

definition add_item :: "int \<Rightarrow> int option \<Rightarrow> item" where
  "add_item t ord =
     \<lparr>timeEpochMilli = t,
      it_transaction = Some \<lparr>tx_type = Some ''TRANSACTION_ADD'', tx_team_id = ''7'',
                             tx_player = Some \<lparr>pb_id = Some ''42'', pb_ordinal = ord\<rparr>,
                             tx_first_player = None\<rparr>\<rparr>"

text \<open>The end of the window at position \<open>i\<close> of the sorted items.\<close>

definition window_end :: "(int \<times> int) list \<Rightarrow> nat \<Rightarrow> int" where
  "window_end xs i =
     (if Suc i < length xs then snd (xs ! Suc i) - 1 else snd (xs ! i) + eight_days_ms)"

section \<open>Properties of the epoch lookup\<close>

lemma map_epoch_loop_windows:
  "map_epoch_loop xs ts = first_window_containing (week_windows xs) ts"
  by (induction xs rule: week_windows.induct)
     (simp_all add: first_window_containing_def)

lemma map_epoch_loop_hit:
  "sorted_wrt (<) (map snd xs) \<Longrightarrow> i < length xs \<Longrightarrow> snd (xs ! i) \<le> ts \<Longrightarrow>
   ts \<le> window_end xs i \<Longrightarrow> map_epoch_loop xs ts = Some (fst (xs ! i))"
proof (induction xs arbitrary: i)
  case Nil
  then show ?case by simp
next
  case (Cons p later)
  obtain w start where p: "p = (w, start)" by (cases p)
  show ?case
  proof (cases i)
    case 0
    with Cons.prems p show ?thesis
      by (cases later) (auto simp: window_end_def)
  next
    case (Suc j)
    with Cons.prems obtain q rest where later: "later = q # rest"
      by (cases later) auto
    obtain w' start' where q: "q = (w', start')" by (cases q)
    have j: "j < length later" using Cons.prems Suc by simp
    have "start' \<le> snd (later ! j)"
    proof (cases j)
      case 0
      then show ?thesis using later q by simp
    next
      case (Suc k)
      have "later ! j \<in> set rest"
        using j later Suc by simp
      then have "snd (later ! j) \<in> set (map snd rest)"
        by simp
      then show ?thesis using Cons.prems(1) later q by auto
    qed
    then have miss: "\<not> ts \<le> start' - 1"
      using Cons.prems(3) Suc by simp
    have we: "window_end later j = window_end (p # later) i"
      using Suc by (simp add: window_end_def)
    have "map_epoch_loop later ts = Some (fst (later ! j))"
      using Cons.IH [of j] Cons.prems Suc j we by simp
    then show ?thesis
      using p later q miss Suc by simp
  qed
qed

text \<open>
  Claim C3. The lookup returns the first week window (in week order) that contains the
  timestamp, and none when no window does; windows end one millisecond before the next known
  start, the last one eight days after its own start. When the known starts increase with
  the week number, two consecutive known weeks \<open>w1\<close>, \<open>w2\<close> with starts \<open>s1 < s2\<close> satisfy
  \<open>map_epoch (s2 - 1) = w1\<close> and \<open>map_epoch s2 = w2\<close>.
\<close>

theorem map_epoch_roundtrip:
  assumes incr: "sorted_wrt (<) (map snd (sorted_weeks wst))"
    and i: "Suc i < length wst"
    and w1: "sorted_weeks wst ! i = (w1, s1)"
    and w2: "sorted_weeks wst ! Suc i = (w2, s2)"
  shows "map_epoch wst ts = first_window_containing (week_windows (sorted_weeks wst)) ts
       \<and> s1 < s2 \<and> map_epoch wst (s2 - 1) = Some w1 \<and> map_epoch wst s2 = Some w2"
proof -
  let ?xs = "sorted_weeks wst"
  have len: "length ?xs = length wst" by (simp add: sorted_weeks_def)
  have lt: "s1 < s2"
    using sorted_wrt_nth_less [OF incr, of i "Suc i"] i w1 w2 len by simp
  have a: "map_epoch_loop ?xs (s2 - 1) = Some (fst (?xs ! i))"
    using incr i w1 w2 lt len
    by (intro map_epoch_loop_hit) (simp_all add: window_end_def)
  have "s2 \<le> window_end ?xs (Suc i)"
  proof (cases "Suc (Suc i) < length ?xs")
    case True
    have "snd (?xs ! Suc i) < snd (?xs ! Suc (Suc i))"
      using sorted_wrt_nth_less [OF incr, of "Suc i" "Suc (Suc i)"] True by simp
    then show ?thesis using True w2 by (simp add: window_end_def)
  next
    case False
    then show ?thesis using w2 by (simp add: window_end_def eight_days_ms_def)
  qed
  then have b: "map_epoch_loop ?xs s2 = Some (fst (?xs ! Suc i))"
    using incr i w2 len by (intro map_epoch_loop_hit) simp_all
  show ?thesis
    using a b lt w1 w2 by (simp add: map_epoch_def map_epoch_loop_windows)
qed

theorem map_epoch_roundtrip_witness:
  "map_epoch [(1, 1000), (2, 5000), (3, 9000)] 4999 = Some 1
 \<and> map_epoch [(1, 1000), (2, 5000), (3, 9000)] 5000 = Some 2"
  using map_epoch_roundtrip [of "[(1, 1000), (2, 5000), (3, 9000)]" 0 1 1000 2 5000 0]
  by (simp add: sorted_weeks_def)

section \<open>Weekly medians and median records\<close>





subsection \<open>The median of a list\<close>


















section \<open>Keys of the weekly transaction buckets\<close>

lemma dom_init_buckets:
  "dom (init_buckets e tbw) = dom tbw \<union> {start_week e .. num_regular_season_weeks e}"
proof -
  have "dom (fold (\<lambda>wk m. m(wk \<mapsto> empty_bucket)) wks tbw) = dom tbw \<union> set wks" for wks
    by (induction wks arbitrary: tbw) auto
  then show ?thesis by (simp add: init_buckets_def)
qed

lemma dom_process_activity: "dom (process_activity e a tbw) = dom tbw"
  by (auto simp: process_activity_def Let_def split: option.splits if_splits)

lemma dom_fold_process_activity: "dom (fold (process_activity e) acts tbw) = dom tbw"
  by (induction acts arbitrary: tbw) (simp_all add: dom_process_activity)

lemma dom_record_trade_row: "dom (record_trade_row tr received idx tbw) = dom tbw"
  by (auto simp: record_trade_row_def split: prod.splits option.splits)

lemma dom_process_trade: "dom (process_trade e tr tbw) = dom tbw"
proof -
  have "dom (fold (record_trade_row tr received) idxs tbw) = dom tbw" for received idxs
    by (induction idxs arbitrary: tbw) (simp_all add: dom_record_trade_row)
  then show ?thesis by (simp add: process_trade_def Let_def)
qed

lemma dom_fold_process_trade: "dom (fold (process_trade e) trs tbw) = dom tbw"
  by (induction trs arbitrary: tbw) (simp_all add: dom_process_trade)

lemma fold_exc_invariant:
  assumes "\<And>x s. P s \<Longrightarrow> P (fst (f x s))" and "P s"
  shows "P (fst (fold_exc f xs s))"
  using assms(2)
proof (induction xs arbitrary: s)
  case Nil
  then show ?case by simp
next
  case (Cons x xs)
  obtain s' r where fx: "f x s = (s', r)" by (cases "f x s")
  with assms(1) [OF Cons.prems, of x] have "P s'" by simp
  with Cons.IH [of s'] fx show ?case by (cases r) simp_all
qed

lemma dom_hydrate_event: "dom (fst (hydrate_event tid wk_ev tbw)) = dom tbw"
  by (auto simp: hydrate_event_def split: option.splits sum.splits)

lemma dom_process_team_item:
  "dom (fst (fst (process_team_item e tid it st))) = dom (fst st)"
  by (auto simp: process_team_item_def Let_def split: option.splits sum.splits if_splits prod.splits)

lemma dom_team_items:
  "dom (fst (fst (fold_exc (process_team_item e tid) its st))) = dom (fst st)"
  by (rule fold_exc_invariant [where P = "\<lambda>s. dom (fst s) = dom (fst st)"])
     (simp_all add: dom_process_team_item)

lemma dom_team_pages: "dom (fst (team_pages e tid pages tbw)) = dom tbw"
proof (induction pages arbitrary: tbw)
  case Nil
  then show ?case by simp
next
  case (Cons pg later)
  obtain tbw' oldest r where
    f: "fold_exc (process_team_item e tid) (pg_items pg) (tbw, None) = ((tbw', oldest), r)"
    by (metis surj_pair)
  have d: "dom tbw' = dom tbw"
    using dom_team_items [of e tid "pg_items pg" "(tbw, None)"] f by simp
  show ?case
    using f d Cons.IH [of tbw'] by (cases r) simp_all
qed

lemma dom_process_team: "dom (fst (process_team e tf tbw)) = dom tbw"
proof (cases "offline e")
  case True
  have "dom (fst (fold_exc (hydrate_event (tf_team_id tf)) (cached_events e tf) tbw)) = dom tbw"
    by (rule fold_exc_invariant [where P = "\<lambda>s. dom s = dom tbw"])
       (simp_all add: dom_hydrate_event)
  with True show ?thesis by (simp add: process_team_def)
next
  case False
  then show ?thesis by (simp add: process_team_def dom_team_pages)
qed

lemma dom_teams: "dom (fst (fold_exc (process_team e) teams tbw)) = dom tbw"
  by (rule fold_exc_invariant [where P = "\<lambda>s. dom s = dom tbw"])
     (simp_all add: dom_process_team)

lemma team_item_out_of_range:
  "resolve_team_week (week_start_ts e)
     (case (case it_transaction it of None \<Rightarrow> None | Some tx \<Rightarrow> tx_player tx) of
        None \<Rightarrow> None | Some pb \<Rightarrow> pb_ordinal pb) (timeEpochMilli it) = Some wk \<Longrightarrow>
   wk < start_week e \<or> num_regular_season_weeks e < wk \<Longrightarrow>
   process_team_item e tid it st = (st, None)"
  by (simp add: process_team_item_def Let_def)

text \<open>
  Claim C10. After the normalisation the keys of \<^verbatim>\<open>transactions_by_week\<close> are the weeks from
  \<open>start_week\<close> to \<open>num_regular_season_weeks\<close> (added to the keys the dictionary had before), each
  holding a bucket of the four lists; no step inserts a key, so every event is recorded under
  a key of that range. An item of a team's feed whose week lies outside the range is skipped
  without an exception.
\<close>

theorem transactions_by_week_keys:
  "dom (normalize_transactions e activity_items trades_feed teams Map.empty)
     = {start_week e .. num_regular_season_weeks e}
   \<and> dom (normalize_transactions e activity_items trades_feed teams tbw)
     = dom tbw \<union> {start_week e .. num_regular_season_weeks e}
   \<and> dom (process_activity e activity tbw) = dom tbw
   \<and> dom (process_trade e tr tbw) = dom tbw
   \<and> dom (fst (process_team e tf tbw)) = dom tbw
   \<and> (\<forall>wk. resolve_team_week (week_start_ts e)
              (case (case it_transaction it of None \<Rightarrow> None | Some tx \<Rightarrow> tx_player tx) of
                 None \<Rightarrow> None | Some pb \<Rightarrow> pb_ordinal pb) (timeEpochMilli it) = Some wk
           \<and> (wk < start_week e \<or> num_regular_season_weeks e < wk)
           \<longrightarrow> process_team_item e tid it st = (st, None))"
  using team_item_out_of_range [of e it _ tid st]
  by (simp add: normalize_transactions_def dom_teams dom_fold_process_trade
      dom_fold_process_activity dom_init_buckets dom_process_activity dom_process_trade
      dom_process_team)

theorem transactions_by_week_keys_witness:
  "dom (normalize_transactions env_example [add_item 9500 (Some 2)] [] [] Map.empty) = {1 .. 3}
   \<and> resolve_team_week (week_start_ts (env_example\<lparr>num_regular_season_weeks := 2\<rparr>)) (Some 2) 9500 = Some 3
   \<and> process_team_item (env_example\<lparr>num_regular_season_weeks := 2\<rparr>) ''7'' (add_item 9500 (Some 2))
        (Map.empty, None) = ((Map.empty, None), None)"
  using transactions_by_week_keys [of env_example "[add_item 9500 (Some 2)]" "[]" "[]"]
    transactions_by_week_keys [of "env_example\<lparr>num_regular_season_weeks := 2\<rparr>" "[]" "[]" "[]"
      Map.empty undefined undefined undefined "add_item 9500 (Some 2)" "''7''" "(Map.empty, None)"]
  by (simp add: env_example_def add_item_def resolve_team_week_def map_epoch_def sorted_weeks_def
      eight_days_ms_def)

section \<open>Week attribution of transactions and trades\<close>

lemma map_epoch_nonempty: "map_epoch w ts = Some m \<Longrightarrow> w \<noteq> []"
  by (auto simp: map_epoch_def sorted_weeks_def)

lemma resolve_activity_week_mapped:
  "map_epoch w ts = Some m \<Longrightarrow> resolve_activity_week w ord ts = Some m"
  by (frule map_epoch_nonempty) (auto simp: resolve_activity_week_def Let_def split: option.splits)

lemma resolve_team_week_mapped:
  "map_epoch w ts = Some m \<Longrightarrow> resolve_team_week w ord ts = Some m"
  by (frule map_epoch_nonempty) (auto simp: resolve_team_week_def Let_def)

lemma process_activity_other_weeks:
  assumes "map_epoch (week_start_ts e) (timeEpochMilli a) = Some m" and "w \<noteq> m"
  shows "process_activity e a tbw w = tbw w"
  using assms
  by (auto simp: process_activity_def Let_def resolve_activity_week_mapped
           split: option.splits)

lemma process_activity_mapped_week:
  assumes "map_epoch (week_start_ts e) (timeEpochMilli a) = Some m"
    and "in_season e (timeEpochMilli a)" and "it_transaction a = Some tx"
    and "activity_player_id tx = Some pid" and "pid \<noteq> []" and "tx_team_id tx \<noteq> []"
    and "m \<noteq> 0" and "tbw m = Some b"
  shows "process_activity e a tbw
           = tbw(m \<mapsto> record_activity a (type_or_default (tx_type tx)) (tx_team_id tx) pid b)"
  using assms
  by (simp add: process_activity_def Let_def resolve_activity_week_mapped truthy_int_def)

lemma process_team_item_other_weeks:
  assumes "map_epoch (week_start_ts e) (timeEpochMilli it) = Some m" and "w \<noteq> m"
  shows "fst (fst (process_team_item e tid it (tbw, oldest))) w = tbw w"
  using assms
  by (auto simp: process_team_item_def Let_def resolve_team_week_mapped
           split: option.splits sum.splits)

lemma process_team_item_mapped_week:
  assumes "map_epoch (week_start_ts e) (timeEpochMilli it) = Some m"
    and "it_transaction it = Some tx" and "tx_player tx = Some pb" and "pb_id pb = Some p"
    and "team_kind (type_or_default (tx_type tx)) = Some kind"
    and "m \<noteq> 0" and "start_week e \<le> m" and "m \<le> num_regular_season_weeks e"
    and "tbw m = Some b"
    and "append_kind kind \<lparr>mv_team_id = tid, mv_player_id = Some p\<rparr> b = Inr b'"
  shows "fst (fst (process_team_item e tid it (tbw, oldest))) = tbw(m \<mapsto> b')"
  using assms
  by (simp add: process_team_item_def Let_def resolve_team_week_mapped)


lemma example_buckets:
  "init_buckets env_example Map.empty = [1 \<mapsto> empty_bucket, 2 \<mapsto> empty_bucket, 3 \<mapsto> empty_bucket]"
  by (simp add: init_buckets_def env_example_def upto.simps)

lemma example_map_epoch: "map_epoch (week_start_ts env_example) 9500 = Some 3"
  by (simp add: env_example_def map_epoch_def sorted_weeks_def eight_days_ms_def)

text \<open>
  Claim C4. When the epoch of an item of the activity feed or of a team's feed maps to a week
  \<open>m\<close>, the item's week is \<open>m\<close> whatever ordinal the platform reports, also when it reports
  none: no bucket of another week changes, and the event is appended to the bucket of \<open>m\<close>.
\<close>

theorem epoch_week_overrides_ordinal:
  assumes mapped: "map_epoch (week_start_ts e) (timeEpochMilli it) = Some m"
  shows "resolve_activity_week (week_start_ts e) ord (timeEpochMilli it) = Some m
       \<and> resolve_team_week (week_start_ts e) ord (timeEpochMilli it) = Some m
       \<and> (\<forall>w. w \<noteq> m \<longrightarrow> process_activity e it tbw w = tbw w)
       \<and> (\<forall>w. w \<noteq> m \<longrightarrow> fst (fst (process_team_item e tid it (tbw, oldest))) w = tbw w)
       \<and> (in_season e (timeEpochMilli it) \<and> it_transaction it = Some tx
            \<and> activity_player_id tx = Some pid \<and> pid \<noteq> [] \<and> tx_team_id tx \<noteq> []
            \<and> m \<noteq> 0 \<and> tbw m = Some b
          \<longrightarrow> process_activity e it tbw
                = tbw(m \<mapsto> record_activity it (type_or_default (tx_type tx)) (tx_team_id tx) pid b))
       \<and> (it_transaction it = Some tx \<and> tx_player tx = Some pb \<and> pb_id pb = Some p
            \<and> team_kind (type_or_default (tx_type tx)) = Some kind
            \<and> m \<noteq> 0 \<and> start_week e \<le> m \<and> m \<le> num_regular_season_weeks e \<and> tbw m = Some b
            \<and> append_kind kind \<lparr>mv_team_id = tid, mv_player_id = Some p\<rparr> b = Inr b'
          \<longrightarrow> fst (fst (process_team_item e tid it (tbw, oldest))) = tbw(m \<mapsto> b'))"
proof (intro conjI allI impI)
  show "resolve_activity_week (week_start_ts e) ord (timeEpochMilli it) = Some m"
    by (rule resolve_activity_week_mapped [OF mapped])
  show "resolve_team_week (week_start_ts e) ord (timeEpochMilli it) = Some m"
    by (rule resolve_team_week_mapped [OF mapped])
  show "process_activity e it tbw w = tbw w" if "w \<noteq> m" for w
    by (rule process_activity_other_weeks [OF mapped that])
  show "fst (fst (process_team_item e tid it (tbw, oldest))) w = tbw w" if "w \<noteq> m" for w
    by (rule process_team_item_other_weeks [OF mapped that])
  show "process_activity e it tbw
          = tbw(m \<mapsto> record_activity it (type_or_default (tx_type tx)) (tx_team_id tx) pid b)"
    if "in_season e (timeEpochMilli it) \<and> it_transaction it = Some tx
        \<and> activity_player_id tx = Some pid \<and> pid \<noteq> [] \<and> tx_team_id tx \<noteq> []
        \<and> m \<noteq> 0 \<and> tbw m = Some b"
    by (insert that, elim conjE, rule process_activity_mapped_week [OF mapped]; assumption)
  show "fst (fst (process_team_item e tid it (tbw, oldest))) = tbw(m \<mapsto> b')"
    if "it_transaction it = Some tx \<and> tx_player tx = Some pb \<and> pb_id pb = Some p
        \<and> team_kind (type_or_default (tx_type tx)) = Some kind
        \<and> m \<noteq> 0 \<and> start_week e \<le> m \<and> m \<le> num_regular_season_weeks e \<and> tbw m = Some b
        \<and> append_kind kind \<lparr>mv_team_id = tid, mv_player_id = Some p\<rparr> b = Inr b'"
    by (insert that, elim conjE, rule process_team_item_mapped_week [OF mapped]; assumption)
qed

theorem epoch_week_overrides_ordinal_witness:
  "map_epoch (week_start_ts env_example) (timeEpochMilli (add_item 9500 (Some 2))) = Some 3
   \<and> resolve_activity_week (week_start_ts env_example) (Some 2) 9500 = Some 3
   \<and> process_activity env_example (add_item 9500 (Some 2)) (init_buckets env_example Map.empty) 2
       = Some empty_bucket
   \<and> process_activity env_example (add_item 9500 (Some 2)) (init_buckets env_example Map.empty) 3
       = Some (empty_bucket\<lparr>adds := [\<lparr>mv_team_id = ''7'', mv_player_id = Some ''42''\<rparr>]\<rparr>)"
proof -
  have m: "map_epoch (week_start_ts env_example) (timeEpochMilli (add_item 9500 (Some 2))) = Some 3"
    by (simp add: add_item_def example_map_epoch)
  have t: "add_item 9500 (Some 2) = \<lparr>timeEpochMilli = 9500,
      it_transaction = Some \<lparr>tx_type = Some ''TRANSACTION_ADD'', tx_team_id = ''7'',
                             tx_player = Some \<lparr>pb_id = Some ''42'', pb_ordinal = Some 2\<rparr>,
                             tx_first_player = None\<rparr>\<rparr>"
    by (simp add: add_item_def)
  have add: "record_activity a ''TRANSACTION_ADD'' ''7'' ''42'' empty_bucket
      = empty_bucket\<lparr>adds := [\<lparr>mv_team_id = ''7'', mv_player_id = Some ''42''\<rparr>]\<rparr>" for a
    by (simp add: record_activity_def contains_def sublist_code empty_bucket_def)
  note th = epoch_week_overrides_ordinal [OF m, of "Some 2" "init_buckets env_example Map.empty" "''7''" None
      "\<lparr>tx_type = Some ''TRANSACTION_ADD'', tx_team_id = ''7'',
        tx_player = Some \<lparr>pb_id = Some ''42'', pb_ordinal = Some 2\<rparr>, tx_first_player = None\<rparr>"
      "''42''" empty_bucket]
  from th have a: "resolve_activity_week (week_start_ts env_example) (Some 2) 9500 = Some 3"
    by (simp add: add_item_def)
  from th have "process_activity env_example (add_item 9500 (Some 2))
      (init_buckets env_example Map.empty) 2 = init_buckets env_example Map.empty 2"
    by simp
  then have b: "process_activity env_example (add_item 9500 (Some 2))
      (init_buckets env_example Map.empty) 2 = Some empty_bucket"
    by (simp add: example_buckets)
  have pre: "in_season env_example (timeEpochMilli (add_item 9500 (Some 2)))"
    by (simp add: env_example_def)
  have pre2: "init_buckets env_example Map.empty 3 = Some empty_bucket"
    by (simp add: example_buckets)
  from th pre pre2 have "process_activity env_example (add_item 9500 (Some 2))
      (init_buckets env_example Map.empty)
     = (init_buckets env_example Map.empty)(3 \<mapsto>
         record_activity (add_item 9500 (Some 2)) ''TRANSACTION_ADD'' ''7'' ''42'' empty_bucket)"
    by (simp add: t activity_player_id_def type_or_default_def)
  then have c: "process_activity env_example (add_item 9500 (Some 2))
      (init_buckets env_example Map.empty) 3
     = Some (empty_bucket\<lparr>adds := [\<lparr>mv_team_id = ''7'', mv_player_id = Some ''42''\<rparr>]\<rparr>)"
    by (simp add: add)
  from m a b c show ?thesis by simp
qed

subsection \<open>Trades before the first known week\<close>

lemma map_epoch_loop_start_le:
  "map_epoch_loop xs ts = Some w \<Longrightarrow> \<exists>s. (w, s) \<in> set xs \<and> s \<le> ts"
  by (induction xs ts rule: map_epoch_loop.induct) (auto simp: Let_def split: if_splits)

lemma fold_min_le: "y \<in> set (x # xs) \<Longrightarrow> fold min xs x \<le> (y::int)"
proof (induction xs arbitrary: x y)
  case Nil
  then show ?case by simp
next
  case (Cons z zs)
  have "fold min zs (min z x) \<le> min z x" using Cons.IH [of "min z x" "min z x"] by simp
  moreover have "y \<in> set zs \<Longrightarrow> fold min zs (min z x) \<le> y" using Cons.IH [of y "min z x"] by simp
  ultimately show ?case using Cons.prems by auto
qed

lemma earliest_start_ts_le:
  "earliest_start_ts w = Some earliest \<Longrightarrow> (k, s) \<in> set w \<Longrightarrow> earliest \<le> s"
proof -
  assume e: "earliest_start_ts w = Some earliest" and m: "(k, s) \<in> set w"
  from m have "s \<in> set (map snd w)" by force
  with e show ?thesis
    by (cases "map snd w") (auto simp: earliest_start_ts_def intro: fold_min_le)
qed

lemma map_epoch_before_earliest:
  assumes "earliest_start_ts w = Some earliest" and "ts < earliest"
  shows "map_epoch w ts = None"
proof (cases "map_epoch w ts")
  case None
  then show ?thesis .
next
  case (Some m)
  then obtain s where "(m, s) \<in> set (sorted_weeks w)" "s \<le> ts"
    unfolding map_epoch_def using map_epoch_loop_start_le by blast
  then have "(m, s) \<in> set w" by (simp add: sorted_weeks_def)
  with earliest_start_ts_le [OF assms(1)] assms(2) \<open>s \<le> ts\<close> show ?thesis by fastforce
qed

lemma earliest_nonempty: "earliest_start_ts w = Some earliest \<Longrightarrow> w \<noteq> []"
  by (auto simp: earliest_start_ts_def)

lemma guess_week_offseason:
  assumes e: "earliest_start_ts (week_start_ts e) = Some earliest" and lt: "ts < earliest"
    and p: "start_unmapped (week_start_ts e) p"
    and wg: "week_guess = None \<or> week_guess = Some (start_week e)"
  shows "guess_week e (Some ts) p week_guess = Some (start_week e)"
proof -
  have ne: "week_start_ts e \<noteq> []" using e by (rule earliest_nonempty)
  have none: "map_epoch_trade (week_start_ts e) ts = None"
    using map_epoch_before_earliest [OF e lt] by (simp add: map_epoch_trade_def)
  have mw: "mapped_week (week_start_ts e) (Some ts) p = Inr None"
    using p none by (auto simp: mapped_week_def start_unmapped_def Let_def split: ms_field.splits)
  show ?thesis
    using wg ne mw e lt by (auto simp: guess_week_def Let_def truthy_int_def)
qed

lemma fold_guess_week_offseason:
  assumes e: "earliest_start_ts (week_start_ts e) = Some earliest" and lt: "ts < earliest"
  shows "\<forall>p\<in>set ps. start_unmapped (week_start_ts e) p \<Longrightarrow>
         week_guess = None \<or> week_guess = Some (start_week e) \<Longrightarrow>
         ps \<noteq> [] \<or> week_guess = Some (start_week e) \<Longrightarrow>
         fold (guess_week e (Some ts)) ps week_guess = Some (start_week e)"
proof (induction ps arbitrary: week_guess)
  case Nil
  then show ?case by simp
next
  case (Cons p ps)
  have "guess_week e (Some ts) p week_guess = Some (start_week e)"
    using guess_week_offseason [OF e lt] Cons.prems by simp
  with Cons.IH [of "Some (start_week e)"] Cons.prems show ?case by simp
qed

subsection \<open>The rows of a completed trade\<close>

lemma record_trade_row_at:
  "record_trade_row tr received idx tbw w
     = map_option (\<lambda>b. b\<lparr>trades := trades b @ trade_rows_at tr received w [idx]\<rparr>) (tbw w)"
proof -
  obtain tid recs wk where r: "received ! idx = (tid, recs, wk)" by (metis surj_pair)
  show ?thesis
    using r by (cases "tbw w"; cases "tbw wk")
      (auto simp: record_trade_row_def trade_rows_at_def)
qed

lemma trade_rows_at_Cons:
  "trade_rows_at tr received w (idx # idxs)
     = trade_rows_at tr received w [idx] @ trade_rows_at tr received w idxs"
  by (simp add: trade_rows_at_def)

lemma fold_record_trade_row:
  "fold (record_trade_row tr received) idxs tbw w
     = map_option (\<lambda>b. b\<lparr>trades := trades b @ trade_rows_at tr received w idxs\<rparr>) (tbw w)"
proof (induction idxs arbitrary: tbw)
  case Nil
  then show ?case by (cases "tbw w") (simp_all add: trade_rows_at_def)
next
  case (Cons idx idxs)
  have "fold (record_trade_row tr received) (idx # idxs) tbw w
      = fold (record_trade_row tr received) idxs (record_trade_row tr received idx tbw) w"
    by simp
  also have "\<dots> = map_option (\<lambda>b. b\<lparr>trades := trades b @ trade_rows_at tr received w idxs\<rparr>)
                     (record_trade_row tr received idx tbw w)"
    by (rule Cons.IH)
  also have "\<dots> = map_option (\<lambda>b. b\<lparr>trades := trades b @ trade_rows_at tr received w (idx # idxs)\<rparr>)
                     (tbw w)"
    unfolding record_trade_row_at trade_rows_at_Cons [of tr received w idx idxs]
    by (cases "tbw w") simp_all
  finally show ?case .
qed

lemma process_trade_rows:
  "process_trade e tr tbw w
     = map_option (\<lambda>b. b\<lparr>trades := trades b @
          trade_rows_at tr (team_received e tr) w [0 ..< length (team_received e tr)]\<rparr>) (tbw w)"
  by (simp add: process_trade_def Let_def fold_record_trade_row)

lemma set_map_filter: "set (List.map_filter f xs) = {y. \<exists>x\<in>set xs. f x = Some y}"
  by (induction xs) (auto simp: List.map_filter_simps split: option.splits)

lemma received_row:
  assumes "entry \<in> set (tr_teams tr)"
    and "entry_received e (tr_ts tr) entry = Some (tid, recs, w)"
  shows "\<exists>r. TradeRow r \<in> set (trade_rows_at tr (team_received e tr) w
                                   [0 ..< length (team_received e tr)])
            \<and> row_team_id r = tid \<and> players_received r = recs"
proof -
  have "(tid, recs, w) \<in> set (team_received e tr)"
    using assms by (auto simp: team_received_def set_map_filter)
  then obtain idx where i: "idx < length (team_received e tr)"
    and r: "team_received e tr ! idx = (tid, recs, w)"
    by (auto simp: in_set_conv_nth)
  let ?row = "\<lparr>row_team_id = tid, players_received = recs,
                players_sent = sent_ids (team_received e tr) idx,
                row_trade_ts = tr_ts tr, row_trade_id = tr_id tr\<rparr>"
  have "TradeRow ?row \<in> set (trade_rows_at tr (team_received e tr) w
                                  [0 ..< length (team_received e tr)])"
    using i r by (force simp: trade_rows_at_def image_iff)
  then show ?thesis by (intro exI [of _ ?row]) simp
qed

lemma row_received:
  assumes "ev \<in> set (trade_rows_at tr (team_received e tr) w [0 ..< length (team_received e tr)])"
  shows "\<exists>entry\<in>set (tr_teams tr). \<exists>r. ev = TradeRow r \<and> row_team_id r = tt_team_id entry
            \<and> players_received r = entry_rec_ids entry
            \<and> entry_week_guess e (tr_ts tr) entry = Some w \<and> w \<noteq> 0"
proof -
  from assms obtain idx where i: "idx < length (team_received e tr)"
    and w: "snd (snd (team_received e tr ! idx)) = w"
    and ev: "ev = TradeRow \<lparr>row_team_id = fst (team_received e tr ! idx),
                            players_received = fst (snd (team_received e tr ! idx)),
                            players_sent = sent_ids (team_received e tr) idx,
                            row_trade_ts = tr_ts tr, row_trade_id = tr_id tr\<rparr>"
    by (auto simp: trade_rows_at_def)
  have "team_received e tr ! idx \<in> set (team_received e tr)" using i by simp
  then obtain entry where en: "entry \<in> set (tr_teams tr)"
    and er: "entry_received e (tr_ts tr) entry = Some (team_received e tr ! idx)"
    by (auto simp: team_received_def set_map_filter)
  obtain tid recs wk where nth: "team_received e tr ! idx = (tid, recs, wk)"
    by (metis surj_pair)
  from er w nth have "fst (team_received e tr ! idx) = tt_team_id entry"
    "fst (snd (team_received e tr ! idx)) = entry_rec_ids entry"
    "entry_week_guess e (tr_ts tr) entry = Some w" "w \<noteq> 0"
    by (auto simp: entry_received_def split: if_splits option.splits)
  with en ev show ?thesis by (intro bexI [of _ entry]) simp_all
qed

lemma no_week_no_rows:
  assumes "\<forall>entry\<in>set (tr_teams tr). \<not> truthy_int (entry_week_guess e (tr_ts tr) entry)"
  shows "process_trade e tr tbw = tbw"
proof -
  have "entry_received e (tr_ts tr) entry = None" if "entry \<in> set (tr_teams tr)" for entry
    using assms that by (auto simp: entry_received_def truthy_int_def split: option.splits)
  then have "set (team_received e tr) = {}"
    unfolding team_received_def set_map_filter by simp
  then have "team_received e tr = []" by simp
  then show ?thesis by (simp add: process_trade_def)
qed


lemma unresolved_activity_dropped:
  assumes "it_transaction a = Some tx" and "activity_ordinal tx = None"
    and "map_epoch (week_start_ts e) (timeEpochMilli a) = None"
  shows "process_activity e a tbw = tbw"
  using assms
  by (simp add: process_activity_def Let_def resolve_activity_week_def truthy_int_def)

lemma unresolved_team_item_dropped:
  assumes "it_transaction it = Some tx" and "activity_ordinal tx = None"
    and "map_epoch (week_start_ts e) (timeEpochMilli it) = None"
  shows "process_team_item e tid it st = (st, None)"
  using assms
  by (auto simp: process_team_item_def Let_def resolve_team_week_def activity_ordinal_def
           split: option.splits)

text \<open>
  Claim C5. A completed trade whose timestamp is earlier than the earliest known week start
  maps to no window; when the requested games of the players a team obtained give no week
  either, the team's week is \<open>start_week\<close> and its row is appended to the bucket of
  \<open>start_week\<close>. An item of the activity feed, or of a team's feed, with no ordinal and an epoch
  in no window is dropped: the buckets stay as they are.
\<close>

theorem offseason_trade_start_week:
  assumes ts: "tr_ts tr = Some ts"
    and earliest: "earliest_start_ts (week_start_ts e) = Some earliest"
    and before: "ts < earliest"
    and entry: "entry \<in> set (tr_teams tr)"
    and unmapped: "\<forall>p\<in>set (playersObtained entry). start_unmapped (week_start_ts e) p"
    and recs: "entry_rec_ids entry \<noteq> []"
    and tid: "tt_team_id entry \<noteq> []"
    and sw: "start_week e \<noteq> 0"
    and bucket: "tbw (start_week e) = Some b"
  shows "map_epoch_trade (week_start_ts e) ts = None
       \<and> entry_week_guess e (tr_ts tr) entry = Some (start_week e)
       \<and> (\<exists>b' r. process_trade e tr tbw (start_week e) = Some b' \<and> TradeRow r \<in> set (trades b')
              \<and> row_team_id r = tt_team_id entry \<and> players_received r = entry_rec_ids entry)
       \<and> (it_transaction a = Some tx \<and> activity_ordinal tx = None
            \<and> map_epoch (week_start_ts e) (timeEpochMilli a) = None
          \<longrightarrow> process_activity e a tbw' = tbw' \<and> process_team_item e tid' a st = (st, None))"
proof -
  have none: "map_epoch_trade (week_start_ts e) ts = None"
    using map_epoch_before_earliest [OF earliest before] by (simp add: map_epoch_trade_def)
  have ps: "playersObtained entry \<noteq> []"
    using recs by (auto simp: entry_rec_ids_def List.map_filter_simps)
  have guess: "entry_week_guess e (tr_ts tr) entry = Some (start_week e)"
    unfolding entry_week_guess_def ts
    using fold_guess_week_offseason [OF earliest before unmapped] ps by simp
  then have "entry_received e (tr_ts tr) entry
      = Some (tt_team_id entry, entry_rec_ids entry, start_week e)"
    using recs tid sw by (simp add: entry_received_def)
  from received_row [OF entry this] obtain r where
    r: "TradeRow r \<in> set (trade_rows_at tr (team_received e tr) (start_week e)
                            [0 ..< length (team_received e tr)])"
       "row_team_id r = tt_team_id entry" "players_received r = entry_rec_ids entry"
    by blast
  have row: "\<exists>b' r. process_trade e tr tbw (start_week e) = Some b' \<and> TradeRow r \<in> set (trades b')
              \<and> row_team_id r = tt_team_id entry \<and> players_received r = entry_rec_ids entry"
    using r bucket by (simp add: process_trade_rows) blast
  show ?thesis
    using none guess row unresolved_activity_dropped [of a tx e tbw']
      unresolved_team_item_dropped [of a tx e tid' st]
    by blast
qed

lemma offseason_guess:
  "earliest_start_ts (week_start_ts env_example) = Some 1000"
  by (simp add: env_example_def earliest_start_ts_def)

theorem offseason_trade_start_week_witness:
  "tr_ts offseason_trade = Some 500
   \<and> earliest_start_ts (week_start_ts env_example) = Some 1000
   \<and> entry_week_guess env_example (tr_ts offseason_trade) (hd (tr_teams offseason_trade)) = Some 1
   \<and> start_week env_example = 1"
proof -
  let ?entry = "hd (tr_teams offseason_trade)"
  have entry: "?entry = \<lparr>tt_team_id = ''A'',
      playersObtained = [\<lparr>op_id = Some ''10'', op_req_start = MsNone\<rparr>]\<rparr>"
    by (simp add: offseason_trade_def)
  have h: "tr_ts offseason_trade = Some 500" "(500::int) < 1000"
    "?entry \<in> set (tr_teams offseason_trade)"
    "\<forall>p\<in>set (playersObtained ?entry). start_unmapped (week_start_ts env_example) p"
    "entry_rec_ids ?entry \<noteq> []" "tt_team_id ?entry \<noteq> []" "start_week env_example \<noteq> 0"
    "init_buckets env_example Map.empty (start_week env_example) = Some empty_bucket"
    by (simp_all add: entry start_unmapped_def entry_rec_ids_def List.map_filter_simps
        example_buckets, simp_all add: offseason_trade_def env_example_def)
  from offseason_trade_start_week [where e = env_example
      and tbw = "init_buckets env_example Map.empty" and b = empty_bucket,
      OF h(1) offseason_guess h(2-8)]
  show ?thesis using h(1) offseason_guess by (simp add: env_example_def)
qed

text \<open>
  Claim C6, as the code has it. The rows that a completed trade appends to the bucket of a week
  are those of the participating teams whose received players resolved to that week: a team
  without a resolved week gets no row, every team with a resolved week gets its row whether
  or not the other teams resolved, and the buckets stay as they are when no team resolved.
\<close>

theorem trade_rows_per_resolved_team:
  "process_trade e tr tbw w
     = map_option (\<lambda>b. b\<lparr>trades := trades b @
          trade_rows_at tr (team_received e tr) w [0 ..< length (team_received e tr)]\<rparr>) (tbw w)
   \<and> (\<forall>ev\<in>set (trade_rows_at tr (team_received e tr) w [0 ..< length (team_received e tr)]).
        \<exists>entry\<in>set (tr_teams tr). \<exists>r. ev = TradeRow r \<and> row_team_id r = tt_team_id entry
           \<and> players_received r = entry_rec_ids entry
           \<and> entry_week_guess e (tr_ts tr) entry = Some w \<and> w \<noteq> 0)
   \<and> (\<forall>entry\<in>set (tr_teams tr). \<forall>team_id recs.
        entry_received e (tr_ts tr) entry = Some (team_id, recs, w)
        \<longrightarrow> (\<exists>r. TradeRow r \<in> set (trade_rows_at tr (team_received e tr) w
                                       [0 ..< length (team_received e tr)])
                \<and> row_team_id r = team_id \<and> players_received r = recs))
   \<and> ((\<forall>entry\<in>set (tr_teams tr). \<not> truthy_int (entry_week_guess e (tr_ts tr) entry))
        \<longrightarrow> process_trade e tr tbw = tbw)"
  using process_trade_rows [of e tr tbw w] row_received [of _ tr e w]
    received_row [of _ tr e _ _ w] no_week_no_rows [of tr e tbw]
  by blast

lemma example_received: "team_received env_example trade_example = [(''A'', [''10''], 1)]"
  by (simp add: team_received_def trade_example_def List.map_filter_simps entry_received_def
      entry_rec_ids_def entry_week_guess_def guess_week_def mapped_week_def truthy_int_def
      env_example_def map_epoch_trade_def map_epoch_def sorted_weeks_def eight_days_ms_def
      earliest_start_ts_def)

lemma example_rows:
  "trade_rows_at trade_example [(''A'', [''10''], 1)] 1 [0]
     = [TradeRow \<lparr>row_team_id = ''A'', players_received = [''10''], players_sent = [],
                  row_trade_ts = None, row_trade_id = Some 5\<rparr>]"
  by (simp add: trade_rows_at_def sent_ids_def trade_example_def)

theorem trade_rows_per_resolved_team_witness:
  "process_trade env_example trade_example (init_buckets env_example Map.empty) 1
     = Some (empty_bucket\<lparr>trades :=
         [TradeRow \<lparr>row_team_id = ''A'', players_received = [''10''], players_sent = [],
                    row_trade_ts = None, row_trade_id = Some 5\<rparr>]\<rparr>)
   \<and> process_trade env_example trade_example (init_buckets env_example Map.empty) 2
     = Some empty_bucket"
proof -
  note th = trade_rows_per_resolved_team [THEN conjunct1, of env_example trade_example
      "init_buckets env_example Map.empty"]
  have two: "trade_rows_at trade_example [(''A'', [''10''], 1)] 2 [0] = []"
    by (simp add: trade_rows_at_def)
  show ?thesis
    unfolding th [of 1] th [of 2]
    by (simp add: example_received example_rows two example_buckets empty_bucket_def)
qed

text \<open>
  In the example trade the week of team B does not resolve and the week of team A does: the
  trade is recorded for team A alone, with nothing sent.
\<close>

theorem trade_partially_recorded_counterexample:
  "entry_week_guess env_example (tr_ts trade_example) (tr_teams trade_example ! 1) = None
   \<and> (\<exists>b. process_trade env_example trade_example (init_buckets env_example Map.empty) 1 = Some b
         \<and> trades b = [TradeRow \<lparr>row_team_id = ''A'', players_received = [''10''],
                                  players_sent = [], row_trade_ts = None, row_trade_id = Some 5\<rparr>])"
  by (simp add: process_trade_def example_received example_buckets record_trade_row_def
      sent_ids_def empty_bucket_def,
      simp add: trade_example_def entry_week_guess_def guess_week_def mapped_week_def
      truthy_int_def env_example_def)

section \<open>The z-score table\<close>

lemma fold_err_z_rows:
  "\<forall>kv\<in>set zs. teams (fst kv) \<noteq> None \<Longrightarrow>
   \<exists>rows. fold_err (z_score_row teams) zs (acc, n) = Inr (acc @ rows, n + length zs)
        \<and> length rows = length zs
        \<and> (\<forall>i<length zs. Some (rows ! i) = z_row_of teams (n + i) (zs ! i))"
proof (induction zs arbitrary: acc n)
  case Nil
  then show ?case by simp
next
  case (Cons kv zs)
  from Cons.prems obtain team where team: "teams (fst kv) = Some team" by auto
  let ?row = "\<lparr>z_rank = n, z_team_name = res_name team, z_manager_str = res_manager_str team,
                z_value = (if snd kv \<noteq> 0 then ZScore (round2 (snd kv)) else NotAvailable)\<rparr>"
  have step: "z_score_row teams kv (acc, n) = Inr (acc @ [?row], n + 1)"
    using team by (simp add: z_score_row_def)
  from Cons.IH [of "acc @ [?row]" "n + 1"] Cons.prems obtain rows where
    rows: "fold_err (z_score_row teams) zs (acc @ [?row], n + 1)
             = Inr ((acc @ [?row]) @ rows, n + 1 + length zs)"
      "length rows = length zs"
      "\<forall>i<length zs. Some (rows ! i) = z_row_of teams (n + 1 + i) (zs ! i)"
    by auto
  have "\<forall>i<length (kv # zs). Some ((?row # rows) ! i) = z_row_of teams (n + i) ((kv # zs) ! i)"
  proof (intro allI impI)
    fix i assume "i < length (kv # zs)"
    then show "Some ((?row # rows) ! i) = z_row_of teams (n + i) ((kv # zs) ! i)"
      using rows(3) team by (cases i) (simp_all add: z_row_of_def)
  qed
  with step rows(1,2) show ?case
    by (intro exI [of _ "?row # rows"]) simp
qed

lemma all_none_no_table:
  "list_all (\<lambda>kv. snd kv = None) z \<Longrightarrow> data_for_z_scores teams z = Inr []"
  by (simp add: data_for_z_scores_def z_scores_to_rank_def)

lemma ranked_perm: "mset (ranked_z_scores z) = mset z"
  by (simp add: ranked_z_scores_def)

lemma ranked_sorted: "sorted_wrt (\<lambda>a b. snd a \<ge> snd b) (ranked_z_scores z)"
proof -
  have "sorted (map (\<lambda>kv. - snd kv) (ranked_z_scores z))"
    by (simp add: ranked_z_scores_def)
  then show ?thesis
    by (simp add: sorted_wrt_map sorted_wrt_iff_nth_less)
qed


lemma coerce_z_eq: "coerce_z v = (case v of None \<Rightarrow> 0 | Some z \<Rightarrow> z)"
  by (simp add: coerce_z_def split: option.splits)

text \<open>
  Claim C9. When every z-score is undefined the table stays empty. When some but not all
  are undefined, the undefined ones are ranked as 0: the ranked values are a rearrangement,
  in descending order, of the values with \<^verbatim>\<open>None\<close> replaced by 0, and the table has one row for
  each of them, the \<open>i\<close>-th row carrying the rank \<open>i\<close> and the team of the \<open>i\<close>-th ranked value.
  (Every team id of the z-scores is a key of \<^verbatim>\<open>teams_results\<close>.)
\<close>

theorem z_score_table_rows:
  assumes known: "\<forall>kv\<in>set z. teams (fst kv) \<noteq> None"
  shows "(list_all (\<lambda>kv. snd kv = None) z \<longrightarrow> data_for_z_scores teams z = Inr [])
       \<and> (list_ex (\<lambda>kv. snd kv = None) z \<and> \<not> list_all (\<lambda>kv. snd kv = None) z \<longrightarrow>
            (\<exists>rows ranked. data_for_z_scores teams z = Inr rows
               \<and> mset ranked = mset (map (\<lambda>kv. (fst kv, case snd kv of None \<Rightarrow> 0 | Some v \<Rightarrow> v)) z)
               \<and> sorted_wrt (\<lambda>a b. snd a \<ge> snd b) ranked
               \<and> length rows = length z
               \<and> (\<forall>i<length z. Some (rows ! i) = z_row_of teams (Suc i) (ranked ! i))))"
proof (intro conjI impI)
  assume "list_all (\<lambda>kv. snd kv = None) z"
  then show "data_for_z_scores teams z = Inr []" by (rule all_none_no_table)
next
  assume some: "list_ex (\<lambda>kv. snd kv = None) z \<and> \<not> list_all (\<lambda>kv. snd kv = None) z"
  let ?c = "map (\<lambda>kv. (fst kv, case snd kv of None \<Rightarrow> 0 | Some v \<Rightarrow> v)) z"
  let ?ranked = "ranked_z_scores ?c"
  have rank: "z_scores_to_rank z = Some ?c"
    using some by (simp add: z_scores_to_rank_def coerce_z_eq)
  have "set ?ranked = set ?c" by (simp add: ranked_z_scores_def)
  then have "\<forall>kv\<in>set ?ranked. teams (fst kv) \<noteq> None" using known by auto
  from fold_err_z_rows [OF this, of "[]" 1] obtain rows where
    rows: "fold_err (z_score_row teams) ?ranked ([], 1) = Inr (rows, 1 + length ?ranked)"
      "length rows = length ?ranked"
      "\<forall>i<length ?ranked. Some (rows ! i) = z_row_of teams (1 + i) (?ranked ! i)"
    by auto
  have len: "length ?ranked = length z" by (simp add: ranked_z_scores_def)
  have "data_for_z_scores teams z = Inr rows"
    using rank rows(1) by (simp add: data_for_z_scores_def)
  moreover have "mset ?ranked = mset ?c" by (rule ranked_perm)
  moreover have "sorted_wrt (\<lambda>a b. snd a \<ge> snd b) ?ranked" by (rule ranked_sorted)
  moreover have "length rows = length z" using rows(2) len by simp
  moreover have "\<forall>i<length z. Some (rows ! i) = z_row_of teams (Suc i) (?ranked ! i)"
    using rows(3) unfolding len by simp
  ultimately show "\<exists>rows ranked. data_for_z_scores teams z = Inr rows
               \<and> mset ranked = mset ?c
               \<and> sorted_wrt (\<lambda>a b. snd a \<ge> snd b) ranked
               \<and> length rows = length z
               \<and> (\<forall>i<length z. Some (rows ! i) = z_row_of teams (Suc i) (ranked ! i))"
    by blast
qed

lemma round2_example: "round2 (3 / 2) = 3 / 2"
  by (simp add: round2_def round_half_even_def)

lemma ranked_example: "ranked_z_scores [(''1'', 0), (''2'', 3 / 2)] = [(''2'', 3 / 2), (''1'', 0)]"
  by (simp add: ranked_z_scores_def)

lemma z_example:
  "data_for_z_scores z_teams_example [(''1'', None), (''2'', Some (3 / 2))]
     = Inr [\<lparr>z_rank = 1, z_team_name = ''Two'', z_manager_str = ''Bo'', z_value = ZScore (3 / 2)\<rparr>,
            \<lparr>z_rank = 2, z_team_name = ''One'', z_manager_str = ''Al'', z_value = NotAvailable\<rparr>]"
  by (simp add: data_for_z_scores_def z_scores_to_rank_def coerce_z_def ranked_example
      z_score_row_def z_teams_example_def round2_example)

theorem z_score_table_rows_witness:
  "data_for_z_scores z_teams_example [(''1'', None), (''2'', Some (3 / 2))]
     = Inr [\<lparr>z_rank = 1, z_team_name = ''Two'', z_manager_str = ''Bo'', z_value = ZScore (3 / 2)\<rparr>,
            \<lparr>z_rank = 2, z_team_name = ''One'', z_manager_str = ''Al'', z_value = NotAvailable\<rparr>]
   \<and> data_for_z_scores z_teams_example [(''1'', None), (''2'', None)] = Inr []"
proof -
  have k: "\<forall>kv\<in>set [(''1'', None :: rat option), (''2'', None)]. z_teams_example (fst kv) \<noteq> None"
    by (simp add: z_teams_example_def)
  from z_score_table_rows [OF k] have "data_for_z_scores z_teams_example [(''1'', None), (''2'', None)] = Inr []"
    by simp
  with z_example show ?thesis by simp
qed

section \<open>Transaction awards\<close>

lemma fold_exc_last:
  "fold_exc f xs s = (s', None) \<Longrightarrow> xs \<noteq> [] \<Longrightarrow> \<exists>s1. f (last xs) s1 = (s', None)"
proof (induction xs arbitrary: s)
  case Nil
  then show ?case by simp
next
  case (Cons x xs)
  obtain s1 r where fx: "f x s = (s1, r)" by (cases "f x s")
  show ?case
  proof (cases r)
    case None
    with Cons.prems fx have rest: "fold_exc f xs s1 = (s', None)" by simp
    show ?thesis
    proof (cases "xs = []")
      case True
      with rest fx None show ?thesis by auto
    next
      case False
      with Cons.IH [OF rest] show ?thesis by simp
    qed
  next
    case (Some e)
    with Cons.prems fx show ?thesis by simp
  qed
qed

lemma award_pass_ends_with_trades:
  assumes "award_pass c fa ev st = (st', None)"
  shows "\<exists>aw3. trades_step c aw3 = (snd st', None)"
proof -
  from assms obtain st3 aw4 where "trades_step c (snd st3) = (aw4, None)" "st' = (fst st3, aw4)"
    by (auto simp: award_pass_def Let_def split: sum.splits prod.splits option.splits)
  then show ?thesis by auto
qed

lemma trades_step_single:
  assumes "trades_step c aw3 = (aw, None)" and "trade_rows c = Inr [row]"
  shows "transactions_awards_best_trades aw = [row] \<and> transactions_awards_worst_trades aw = [row]"
  using assms by (auto simp: trades_step_def Let_def)

lemma trades_step_rows:
  assumes "trades_step c aw3 = (aw, None)"
  shows "\<exists>rows. trade_rows c = Inr rows"
  using assms by (auto simp: trades_step_def split: sum.splits)

lemma ineligible_no_row: "\<not> trade_eligible tr \<Longrightarrow> trade_award_row c tr rows = Inr rows"
  by (simp add: trade_award_row_def)

lemma fold_trade_rows_eligible:
  "fold_err (trade_award_row c) evs acc
     = fold_err (trade_award_row c) (filter trade_eligible evs) acc"
  by (induction evs arbitrary: acc) (simp_all add: ineligible_no_row split: sum.splits)

lemma trade_rows_eligible:
  "trade_rows c = fold_err (trade_award_row c) (filter trade_eligible (trades (events c))) []"
  unfolding trade_rows_def by (rule fold_trade_rows_eligible)

lemma single_trade_row:
  assumes "trade_award_row c tr [] = Inr rows" and "trade_eligible tr"
    and "curr_team_objs c (ev_team_id tr) = Some t"
  shows "\<exists>recv_pts sent_pts detail.
           points_sum c (ev_received tr) = Inr recv_pts \<and> points_sum c (ev_sent tr) = Inr sent_pts
         \<and> rows = [\<lparr>aw_team = rt_name t, aw_manager = rt_manager_str t, aw_detail = detail,
                     aw_points = round2 (recv_pts - sent_pts)\<rparr>]"
  using assms by (auto simp: trade_award_row_def split: sum.splits)


text \<open>
  Claim C7, as the code has it. In a week with at least one drop event in which the award
  block ends without an exception, a trades bucket with exactly one trade row that has
  received and sent players, of a team of the week, yields that row as the worst trade and
  as the best trade, whatever the sign of its net points (received minus sent, to two
  decimals); trade rows without received or without sent players add nothing to the rows
  the awards are chosen from.
\<close>

theorem single_trade_is_best_and_worst:
  assumes run: "transactions_awards c aw0 = (aw, None)"
    and some_drop: "drops (events c) \<noteq> []"
    and one: "filter trade_eligible (trades (events c)) = [tr]"
    and team: "curr_team_objs c (ev_team_id tr) = Some t"
  shows "(\<exists>recv_pts sent_pts detail.
            points_sum c (ev_received tr) = Inr recv_pts \<and> points_sum c (ev_sent tr) = Inr sent_pts
          \<and> transactions_awards_worst_trades aw
              = [\<lparr>aw_team = rt_name t, aw_manager = rt_manager_str t, aw_detail = detail,
                  aw_points = round2 (recv_pts - sent_pts)\<rparr>]
          \<and> transactions_awards_best_trades aw = transactions_awards_worst_trades aw)
       \<and> trade_rows c = fold_err (trade_award_row c) (filter trade_eligible (trades (events c))) []"
proof -
  from run obtain fa st where fa: "fa_candidates c = Inr fa"
    and loop: "fold_exc (award_pass c fa) (drops (events c)) ([], aw0) = (st, None)"
    and aw: "aw = snd st"
    by (auto simp: transactions_awards_def split: sum.splits prod.splits)
  from fold_exc_last [OF loop some_drop] obtain s1 where
    "award_pass c fa (last (drops (events c))) s1 = (st, None)" by blast
  from award_pass_ends_with_trades [OF this] aw obtain aw3 where
    step: "trades_step c aw3 = (aw, None)" by auto
  from trades_step_rows [OF step] obtain rows where rows: "trade_rows c = Inr rows" by blast
  have el: "trade_eligible tr"
    using one by (metis filter_eq_ConsD)
  have "trade_award_row c tr [] = Inr rows"
    using rows unfolding trade_rows_eligible one by (simp split: sum.splits)
  from single_trade_row [OF this el team] obtain recv_pts sent_pts detail where
    pts: "points_sum c (ev_received tr) = Inr recv_pts" "points_sum c (ev_sent tr) = Inr sent_pts"
    and row: "rows = [\<lparr>aw_team = rt_name t, aw_manager = rt_manager_str t, aw_detail = detail,
                       aw_points = round2 (recv_pts - sent_pts)\<rparr>]"
    by blast
  from trades_step_single [OF step rows [unfolded row]] pts
  have "\<exists>recv_pts sent_pts detail.
            points_sum c (ev_received tr) = Inr recv_pts \<and> points_sum c (ev_sent tr) = Inr sent_pts
          \<and> transactions_awards_worst_trades aw
              = [\<lparr>aw_team = rt_name t, aw_manager = rt_manager_str t, aw_detail = detail,
                  aw_points = round2 (recv_pts - sent_pts)\<rparr>]
          \<and> transactions_awards_best_trades aw = transactions_awards_worst_trades aw"
    by auto
  then show ?thesis using trade_rows_eligible [of c] by blast
qed

lemma scenario_C_run:
  "transactions_awards (example_ctx (empty_bucket\<lparr>trades := [trade_C], drops := [drop_D]\<rparr>)) no_awards
     = (no_awards\<lparr>transactions_awards_best_drops :=
                    [\<lparr>aw_team = ''Team U'', aw_manager = ''Uma'', aw_detail = ''D'', aw_points = 1\<rparr>],
                  transactions_awards_worst_drops :=
                    [\<lparr>aw_team = ''Team U'', aw_manager = ''Uma'', aw_detail = ''D'', aw_points = 1\<rparr>],
                  transactions_awards_best_trades :=
                    [\<lparr>aw_team = ''Team T'', aw_manager = ''Tess'', aw_detail = ''A, B vs C'',
                      aw_points = - 5\<rparr>],
                  transactions_awards_worst_trades :=
                    [\<lparr>aw_team = ''Team T'', aw_manager = ''Tess'', aw_detail = ''A, B vs C'',
                      aw_points = - 5\<rparr>]\<rparr>, None)"
  by code_simp

lemma scenario_C_points:
  "points_sum (example_ctx b) [''4'', ''5''] = Inr 15 \<and> points_sum (example_ctx b) [''6''] = Inr 20"
  by (simp add: points_sum_def add_points_def lookup_player_def example_ctx_def
      example_players_def example_int_of_str_def)

theorem single_trade_is_best_and_worst_witness:
  "transactions_awards_worst_trades
     (fst (transactions_awards (example_ctx (empty_bucket\<lparr>trades := [trade_C], drops := [drop_D]\<rparr>))
            no_awards))
     = [\<lparr>aw_team = ''Team T'', aw_manager = ''Tess'', aw_detail = ''A, B vs C'', aw_points = - 5\<rparr>]
   \<and> transactions_awards_best_trades
     (fst (transactions_awards (example_ctx (empty_bucket\<lparr>trades := [trade_C], drops := [drop_D]\<rparr>))
            no_awards))
     = transactions_awards_worst_trades
     (fst (transactions_awards (example_ctx (empty_bucket\<lparr>trades := [trade_C], drops := [drop_D]\<rparr>))
            no_awards))
   \<and> filter trade_eligible [trade_C] = [trade_C]"
proof -
  let ?c = "example_ctx (empty_bucket\<lparr>trades := [trade_C], drops := [drop_D]\<rparr>)"
  have h: "drops (events ?c) \<noteq> []" "filter trade_eligible (trades (events ?c)) = [trade_C]"
    "curr_team_objs ?c (ev_team_id trade_C)
       = Some \<lparr>rt_name = ''Team T'', rt_manager_str = ''Tess'',
               rt_roster = [\<lparr>rp_id = ''1'', rp_selected_position = Some ''QB''\<rparr>]\<rparr>"
    by (simp_all add: example_ctx_def empty_bucket_def trade_eligible_def trade_C_def
        example_teams_def)
  from single_trade_is_best_and_worst [OF scenario_C_run h]
  have "transactions_awards_best_trades
          (no_awards\<lparr>transactions_awards_best_drops :=
                    [\<lparr>aw_team = ''Team U'', aw_manager = ''Uma'', aw_detail = ''D'', aw_points = 1\<rparr>],
                  transactions_awards_worst_drops :=
                    [\<lparr>aw_team = ''Team U'', aw_manager = ''Uma'', aw_detail = ''D'', aw_points = 1\<rparr>],
                  transactions_awards_best_trades :=
                    [\<lparr>aw_team = ''Team T'', aw_manager = ''Tess'', aw_detail = ''A, B vs C'',
                      aw_points = - 5\<rparr>],
                  transactions_awards_worst_trades :=
                    [\<lparr>aw_team = ''Team T'', aw_manager = ''Tess'', aw_detail = ''A, B vs C'',
                      aw_points = - 5\<rparr>]\<rparr>)
        = [\<lparr>aw_team = ''Team T'', aw_manager = ''Tess'', aw_detail = ''A, B vs C'', aw_points = - 5\<rparr>]"
    by simp
  moreover have "filter trade_eligible [trade_C] = [trade_C]"
    by (simp add: trade_eligible_def trade_C_def)
  ultimately show ?thesis
    unfolding scenario_C_run by simp
qed

text \<open>
  Scenario C with one drop event in the week: the only trade row has net points \<open>15 - 20 = -5\<close>
  and is the worst trade; it is the best trade as well.
\<close>

theorem negative_trade_in_best_trades_counterexample:
  "points_sum (example_ctx (empty_bucket\<lparr>trades := [trade_C], drops := [drop_D]\<rparr>)) (ev_received trade_C) = Inr 15
   \<and> points_sum (example_ctx (empty_bucket\<lparr>trades := [trade_C], drops := [drop_D]\<rparr>)) (ev_sent trade_C) = Inr 20
   \<and> transactions_awards_best_trades
       (report_awards 3 3 (example_ctx (empty_bucket\<lparr>trades := [trade_C], drops := [drop_D]\<rparr>)))
     = [\<lparr>aw_team = ''Team T'', aw_manager = ''Tess'', aw_detail = ''A, B vs C'', aw_points = - 5\<rparr>]"
proof -
  have "ev_received trade_C = [''4'', ''5'']" "ev_sent trade_C = [''6'']"
    by (simp_all add: trade_C_def)
  then show ?thesis
    using scenario_C_points [of "empty_bucket\<lparr>trades := [trade_C], drops := [drop_D]\<rparr>"]
    by (simp add: report_awards_def scenario_C_run)
qed


lemma no_drop_no_awards:
  "drops (events c) = [] \<Longrightarrow> fst (transactions_awards c aw) = aw"
  by (simp add: transactions_awards_def split: sum.splits)

text \<open>
  Claim C8 on scenario B. The week has two pickups: P by team T, started, 12.5 points, and
  Q by team U, benched, 20 points. Without a drop event in the week the loop body that holds
  the award code never runs and no best pickup is reported; with one drop event the best
  pickup is P of team T with Q of team U as the honorable mention.
\<close>

theorem fa_awards_skipped_without_drops:
  "fa_candidates (example_ctx (empty_bucket\<lparr>adds := pickups_B\<rparr>))
     = Inr [(''T'', ''1'', 25 / 2), (''U'', ''2'', 20)]
   \<and> started_fa (example_ctx (empty_bucket\<lparr>adds := pickups_B\<rparr>))
        [(''T'', ''1'', 25 / 2), (''U'', ''2'', 20)] = [(''T'', ''1'', 25 / 2)]
   \<and> report_awards 3 3 (example_ctx (empty_bucket\<lparr>adds := pickups_B\<rparr>)) = no_awards
   \<and> transactions_awards_best_fa_pickups
        (report_awards 3 3 (example_ctx (empty_bucket\<lparr>adds := pickups_B, drops := [drop_D]\<rparr>)))
      = [\<lparr>aw_team = ''Team T'', aw_manager = ''Tess'', aw_detail = ''P'', aw_points = 25 / 2\<rparr>]
   \<and> transactions_awards_best_fa_pickups_hm
        (report_awards 3 3 (example_ctx (empty_bucket\<lparr>adds := pickups_B, drops := [drop_D]\<rparr>)))
      = Some \<lparr>hm_team = ''Team U'', hm_player = ''Q'', hm_points = 20\<rparr>"
  by code_simp

end
